theory Spec2Isabelle
  imports Complex_Main
begin

section \<open>JavaScript values used by the analyzer\<close>

text \<open>
  Scores are JavaScript numbers that only ever hold integers here (every sub-score is
  produced by integer additions and clamped to 0..100), so they are modelled as \<open>int\<close>.
  The weights 0.55 and 0.45 are taken as the exact rationals 55/100 and 45/100: for
  integer sub-scores from 0 to 100 the double-precision evaluation of the weighted sum
  rounds to the same integer as the exact one. \<open>Math.round\<close> rounds to the nearest
  integer, a half going up.
\<close>

definition js_round :: "rat \<Rightarrow> int" where
  "js_round x = \<lfloor>x + 1 / 2\<rfloor>"

record threatAnalysis =
  isKnownThreat :: bool
  threatType :: "string option"
  ta_confidence :: "int option"
  ta_description :: "string option"

text \<open>\<open>threatAnalysis && threatAnalysis.isKnownThreat\<close>: a missing object counts as no match.\<close>

definition knownThreat :: "threatAnalysis option \<Rightarrow> bool" where
  "knownThreat ta = (case ta of None \<Rightarrow> False | Some t \<Rightarrow> isKnownThreat t)"

section \<open>Risk aggregation: calculateTotalRisk\<close>

definition calculateTotalRisk :: "int \<Rightarrow> int \<Rightarrow> threatAnalysis option \<Rightarrow> int" where
  "calculateTotalRisk permissionRisk codeRisk ta =
     (let totalRisk = js_round ((55 / 100) * of_int permissionRisk + (45 / 100) * of_int codeRisk);
          totalRisk = (if permissionRisk \<ge> 60 \<or> codeRisk \<ge> 60 then max totalRisk 70 else totalRisk);
          totalRisk = (if knownThreat ta then max totalRisk 90 else totalRisk);
          totalRisk = (if (permissionRisk < 15 \<and> codeRisk < 15) \<and> \<not> knownThreat ta
                       then min totalRisk 20 else totalRisk)
      in max 0 (min (js_round (of_int totalRisk)) 100))"

section \<open>Strings\<close>

text \<open>
  Strings are modelled as lists of 8-bit characters; case conversion acts on the ASCII
  letters, which is what \<open>toUpperCase\<close> and \<open>toLowerCase\<close> do on the identifiers,
  file names and package names handled here.
\<close>

fun startsWith :: "string \<Rightarrow> string \<Rightarrow> bool" where
  "startsWith s [] = True"
| "startsWith [] (p # ps) = False"
| "startsWith (c # cs) (p # ps) = (c = p \<and> startsWith cs ps)"

fun includesStr :: "string \<Rightarrow> string \<Rightarrow> bool" where
  "includesStr [] sub = startsWith [] sub"
| "includesStr (c # cs) sub = (startsWith (c # cs) sub \<or> includesStr cs sub)"

definition toUpperChar :: "char \<Rightarrow> char" where
  "toUpperChar c = (let n = (of_char c :: nat) in if 97 \<le> n \<and> n \<le> 122 then char_of (n - 32) else c)"

definition toLowerChar :: "char \<Rightarrow> char" where
  "toLowerChar c = (let n = (of_char c :: nat) in if 65 \<le> n \<and> n \<le> 90 then char_of (n + 32) else c)"

definition toUpperCase :: "string \<Rightarrow> string" where
  "toUpperCase s = map toUpperChar s"

definition toLowerCase :: "string \<Rightarrow> string" where
  "toLowerCase s = map toLowerChar s"

text \<open>\<open>words.some(w => s.includes(w))\<close>, also the test of a regular expression that is an
  alternation of literal words.\<close>

definition includesAny :: "string \<Rightarrow> string list \<Rightarrow> bool" where
  "includesAny s ws = list_ex (\<lambda>w. includesStr s w) ws"

section \<open>Permission risk scorer\<close>

record permissionAnalysis =
  pa_total :: nat
  pa_suspicious :: "string list"
  pa_banking :: "string list"
  pa_riskScore :: int

definition suspiciousPermissions :: "string list" where
  "suspiciousPermissions =
    [''android.permission.READ_SMS'',
     ''android.permission.SEND_SMS'',
     ''android.permission.RECEIVE_SMS'',
     ''android.permission.BIND_ACCESSIBILITY_SERVICE'',
     ''android.permission.REQUEST_INSTALL_PACKAGES'',
     ''android.permission.SYSTEM_ALERT_WINDOW'',
     ''android.permission.WRITE_SETTINGS'',
     ''android.permission.PACKAGE_USAGE_STATS'',
     ''android.permission.RECEIVE_BOOT_COMPLETED'',
     ''android.permission.READ_CONTACTS'',
     ''android.permission.WRITE_CONTACTS'',
     ''android.permission.READ_CALL_LOG'',
     ''android.permission.WRITE_CALL_LOG'',
     ''android.permission.CAMERA'',
     ''android.permission.RECORD_AUDIO'',
     ''android.permission.ACCESS_FINE_LOCATION'',
     ''android.permission.ACCESS_COARSE_LOCATION'',
     ''android.permission.READ_PHONE_NUMBERS'',
     ''android.permission.READ_PHONE_STATE'']"

definition bankingPermissions :: "string list" where
  "bankingPermissions =
    [''android.permission.INTERNET'',
     ''android.permission.ACCESS_NETWORK_STATE'',
     ''android.permission.READ_EXTERNAL_STORAGE'',
     ''android.permission.WRITE_EXTERNAL_STORAGE'']"

definition highRiskPerms :: "string list" where
  "highRiskPerms =
    [''android.permission.BIND_ACCESSIBILITY_SERVICE'',
     ''android.permission.SYSTEM_ALERT_WINDOW'',
     ''android.permission.TYPE_APPLICATION_OVERLAY'']"

definition mediumRiskPerms :: "string list" where
  "mediumRiskPerms =
    [''android.permission.RECEIVE_SMS'',
     ''android.permission.READ_SMS'',
     ''android.permission.SEND_SMS'',
     ''android.permission.READ_CONTACTS'',
     ''android.permission.WRITE_CONTACTS'',
     ''android.permission.READ_CALL_LOG'',
     ''android.permission.WRITE_CALL_LOG'']"

definition lowRiskPerms :: "string list" where
  "lowRiskPerms =
    [''android.permission.CAMERA'',
     ''android.permission.RECORD_AUDIO'',
     ''android.permission.ACCESS_FINE_LOCATION'',
     ''android.permission.ACCESS_COARSE_LOCATION'',
     ''android.permission.READ_PHONE_STATE'',
     ''android.permission.INTERNET'',
     ''android.permission.ACCESS_NETWORK_STATE'']"

text \<open>The body of the \<open>forEach\<close> over the matched permissions: one step of the running score.\<close>

definition permissionStep :: "int \<Rightarrow> string \<Rightarrow> int" where
  "permissionStep riskScore perm =
     (if perm \<in> set highRiskPerms then riskScore + 25
      else if perm \<in> set mediumRiskPerms then riskScore + 15
      else if perm \<in> set lowRiskPerms then riskScore + 8
      else riskScore + 10)"

definition calculatePermissionRisk :: "string list \<Rightarrow> string list \<Rightarrow> int" where
  "calculatePermissionRisk permissions suspicious =
     (let riskScore = foldl permissionStep 10 suspicious;
          riskScore = (case suspicious of
                         [p] \<Rightarrow> if p \<in> set lowRiskPerms then max (riskScore - 5) 0 else riskScore
                       | _ \<Rightarrow> riskScore);
          riskScore = (if length suspicious \<ge> 5 then riskScore + 15 else riskScore)
      in max 0 (min riskScore 100))"

definition analyzePermissions :: "string list \<Rightarrow> permissionAnalysis" where
  "analyzePermissions permissions =
     (let foundSuspicious = filter (\<lambda>p. p \<in> set suspiciousPermissions) permissions;
          foundBanking = filter (\<lambda>p. p \<in> set bankingPermissions) permissions
      in \<lparr> pa_total = length permissions,
           pa_suspicious = foundSuspicious,
           pa_banking = foundBanking,
           pa_riskScore = calculatePermissionRisk permissions foundSuspicious \<rparr>)"

text \<open>The tier of a permission, as the three tables give it.\<close>

datatype tier = High | Medium | Low | Unrecognized

definition permissionTier :: "string \<Rightarrow> tier" where
  "permissionTier perm =
     (if perm \<in> set highRiskPerms then High
      else if perm \<in> set mediumRiskPerms then Medium
      else if perm \<in> set lowRiskPerms then Low
      else Unrecognized)"

definition countTier :: "tier \<Rightarrow> string list \<Rightarrow> int" where
  "countTier t ps = int (length (filter (\<lambda>p. permissionTier p = t) ps))"

section \<open>Code pattern risk\<close>

datatype confidence = ConfHigh | ConfMedium | ConfLow

record pattern =
  pat_pattern :: string
  pat_file :: string
  pat_confidence :: confidence

text \<open>
  \<open>String(pattern.pattern || pattern).toUpperCase()\<close>: an empty \<open>pattern\<close> field is falsy,
  and the object itself is then turned into the string \<open>[object Object]\<close>.
\<close>

definition patternText :: "pattern \<Rightarrow> string" where
  "patternText p = toUpperCase (if pat_pattern p = [] then ''[object Object]'' else pat_pattern p)"

definition isHighRiskPattern :: "string \<Rightarrow> bool" where
  "isHighRiskPattern pat =
     (includesStr pat ''SYSTEM_ALERT_WINDOW'' \<or>
      includesStr pat ''TYPE_APPLICATION_OVERLAY'' \<or>
      includesStr pat ''ACCESSIBILITYSERVICE'' \<or>
      includesStr pat ''KEYLOGGER'' \<or>
      includesStr pat ''SCREEN_CAPTURE'' \<or>
      includesStr pat ''BANKING_TROJAN'' \<or>
      includesStr pat ''CREDENTIAL_STEALER'')"

definition isMediumRiskPattern :: "string \<Rightarrow> bool" where
  "isMediumRiskPattern pat =
     (includesStr pat ''SMS'' \<or>
      includesStr pat ''CONTACTS'' \<or>
      includesStr pat ''CALL_LOG'' \<or>
      includesStr pat ''RECORD_AUDIO'' \<or>
      includesStr pat ''CAMERA'' \<or>
      includesStr pat ''MEDIAPROJECTION'' \<or>
      includesStr pat ''VIRTUALDISPLAY'' \<or>
      includesStr pat ''DEVICEADMIN'' \<or>
      includesStr pat ''DEVICEPOLICY'')"

text \<open>
  The categorising \<open>forEach\<close> pushes every pattern on exactly one of three arrays, in
  order; the known low-risk names and the unknown ones both go to the low-risk array.
\<close>

definition highRiskPatterns :: "pattern list \<Rightarrow> pattern list" where
  "highRiskPatterns ps = filter (\<lambda>p. isHighRiskPattern (patternText p)) ps"

definition mediumRiskPatterns :: "pattern list \<Rightarrow> pattern list" where
  "mediumRiskPatterns ps =
     filter (\<lambda>p. \<not> isHighRiskPattern (patternText p) \<and> isMediumRiskPattern (patternText p)) ps"

definition lowRiskPatterns :: "pattern list \<Rightarrow> pattern list" where
  "lowRiskPatterns ps =
     filter (\<lambda>p. \<not> isHighRiskPattern (patternText p) \<and> \<not> isMediumRiskPattern (patternText p)) ps"

text \<open>
  The scoring half of \<open>calculateCodeRisk\<close>, from the lengths \<open>h\<close>, \<open>m\<close>, \<open>l\<close> of the
  three arrays and the length \<open>n\<close> of the whole pattern list.
\<close>

definition codeRiskFromCounts :: "int \<Rightarrow> int \<Rightarrow> int \<Rightarrow> nat \<Rightarrow> int" where
  "codeRiskFromCounts h m l n =
     (let riskScore = 0;
          riskScore = (if h > 0 then riskScore + min (25 + h * 8) 60 else riskScore);
          riskScore = (if m \<ge> 2 then riskScore + min (20 + m * 5) 40 else riskScore);
          riskScore = (if l \<ge> 3 then riskScore + min (15 + l * 3) 30 else riskScore);
          riskScore = (if n = 1 \<and> l = 1 then max (riskScore - 5) 0 else riskScore);
          riskScore = (if h = 0 \<and> m = 0 then max (riskScore - 10) 0 else riskScore)
      in min riskScore 100)"

definition calculateCodeRisk :: "pattern list \<Rightarrow> int" where
  "calculateCodeRisk suspiciousPatterns =
     codeRiskFromCounts (int (length (highRiskPatterns suspiciousPatterns)))
                        (int (length (mediumRiskPatterns suspiciousPatterns)))
                        (int (length (lowRiskPatterns suspiciousPatterns)))
                        (length suspiciousPatterns)"

section \<open>Threat database\<close>

text \<open>
  A value that is a string, \<open>null\<close> or \<open>undefined\<close>: the keys of the lookup \<open>Map\<close> and
  the optional fields of a record. Only a non-empty string is truthy.
\<close>

datatype jsval = Undefined | Null | Str string

definition truthy :: "jsval \<Rightarrow> bool" where
  "truthy v = (case v of Str s \<Rightarrow> s \<noteq> [] | _ \<Rightarrow> False)"

record threat =
  t_id :: jsval
  t_hash :: jsval
  t_packageName :: jsval
  t_type :: string
  t_family :: jsval
  t_confidence :: int
  t_description :: string
  t_severity :: jsval
  t_tags :: "string list"
  t_firstSeen :: jsval
  t_lastSeen :: jsval

type_synonym threatMap = "jsval \<rightharpoonup> threat"

definition lookupThreat :: "threatMap \<Rightarrow> jsval \<Rightarrow> jsval \<Rightarrow> threat option" where
  "lookupThreat threats hash packageName =
     (if threats hash \<noteq> None then threats hash
      else if truthy packageName \<and> threats packageName \<noteq> None then threats packageName
      else None)"

fun showNat :: "nat \<Rightarrow> string" where
  "showNat n = (if n < 10 then [char_of (48 + n)] else showNat (n div 10) @ [char_of (48 + n mod 10)])"

declare showNat.simps [simp del]

text \<open>
  The assignments \<open>addThreat\<close> makes to the record before storing it: an id from the clock
  when there is none, the first-seen date when there is none, the last-seen date always.
  \<open>now\<close> is \<open>Date.now()\<close> and \<open>today\<close> the date part of the ISO time stamp.
\<close>

definition stampThreat :: "threat \<Rightarrow> nat \<Rightarrow> string \<Rightarrow> threat" where
  "stampThreat threat now today =
     (let threat = (if \<not> truthy (t_id threat) then threat\<lparr>t_id := Str (''threat_'' @ showNat now)\<rparr> else threat);
          threat = (if \<not> truthy (t_firstSeen threat) then threat\<lparr>t_firstSeen := Str today\<rparr> else threat)
      in threat\<lparr>t_lastSeen := Str today\<rparr>)"

text \<open>
  \<open>addThreat\<close> returns the updated map and either the stored record or the error thrown.
  \<open>writeError\<close> is the outcome of \<open>saveThreatDatabase\<close>: the message of the error it throws,
  if it does; the map has been updated by then.
\<close>

definition addThreat ::
  "threatMap \<Rightarrow> threat \<Rightarrow> nat \<Rightarrow> string \<Rightarrow> string option \<Rightarrow> threatMap \<times> (string + threat)" where
  "addThreat threats threat now today writeError =
     (if \<not> truthy (t_hash threat) \<and> \<not> truthy (t_packageName threat)
      then (threats, Inl ''Threat must have either hash or package name'')
      else
        (let threat = stampThreat threat now today;
             threats = (if truthy (t_hash threat) then threats(t_hash threat \<mapsto> threat) else threats);
             threats = (if truthy (t_packageName threat) then threats(t_packageName threat \<mapsto> threat) else threats)
         in (case writeError of
               None \<Rightarrow> (threats, Inr threat)
             | Some e \<Rightarrow> (threats, Inl e))))"

section \<open>Analysis records\<close>

text \<open>
  \<open>analyzeFileStructure\<close> returns size, the two digests, the modification time and the
  validity flag. \<open>generateFinalResult\<close> also reads a \<open>filename\<close> field of this object,
  which \<open>analyzeFileStructure\<close> never sets.
\<close>

record fileAnalysis =
  fa_size :: nat
  fa_hash :: jsval
  fa_hashSha1 :: jsval
  fa_isValidAPK :: bool
  fa_filename :: jsval

record manifestInfo =
  packageName :: string
  versionCode :: string
  versionName :: string
  permissions :: "string list"
  activities :: "string list"
  services :: "string list"
  receivers :: "string list"
  providers :: "string list"
  signatures :: "string list option"

record codeAnalysis =
  ca_dexFiles :: nat
  ca_suspiciousPatterns :: "pattern list"
  ca_riskScore :: int
  ca_error :: "string option"

definition checkThreatDatabase :: "threatMap \<Rightarrow> fileAnalysis \<Rightarrow> manifestInfo \<Rightarrow> threatAnalysis" where
  "checkThreatDatabase threats fileAnalysis manifestAnalysis =
     (let found = lookupThreat threats (fa_hash fileAnalysis) (Str (packageName manifestAnalysis));
          found = (if found = None \<and> truthy (fa_hashSha1 fileAnalysis)
                   then lookupThreat threats (fa_hashSha1 fileAnalysis) (Str (packageName manifestAnalysis))
                   else found)
      in (case found of
            Some t \<Rightarrow> \<lparr> isKnownThreat = True, threatType = Some (t_type t),
                        ta_confidence = Some (t_confidence t), ta_description = Some (t_description t) \<rparr>
          | None \<Rightarrow> \<lparr> isKnownThreat = False, threatType = None,
                      ta_confidence = Some 0, ta_description = None \<rparr>))"

section \<open>Risk aggregation: generateFinalResult\<close>

datatype adjustment = Boost string int | Reduction string int | Cap string int

text \<open>The running total and the list of adjustments logged so far.\<close>

type_synonym scoring = "int \<times> adjustment list"

definition maliciousWords :: "string list" where
  "maliciousWords = [''hack'', ''trojan'', ''malware'', ''virus'', ''spyware'']"

definition moddedWords :: "string list" where
  "moddedWords = [''mod'', ''vanced'', ''microg'', ''happymod'', ''gamedva'']"

definition bankingWords :: "string list" where
  "bankingWords = [''bank'', ''finance'', ''payment'', ''wallet'', ''credit'']"

definition maliciousNameFloor :: "string \<Rightarrow> string \<Rightarrow> scoring \<Rightarrow> scoring" where
  "maliciousNameFloor filename pkg s =
     (if includesAny filename maliciousWords \<or> includesAny pkg maliciousWords
      then (max (fst s) 80, snd s @ [Boost ''Malicious filename/package'' 80])
      else s)"

definition moddedNameFloor :: "string \<Rightarrow> string \<Rightarrow> scoring \<Rightarrow> scoring" where
  "moddedNameFloor filename pkg s =
     (if includesAny filename moddedWords \<or> includesAny pkg moddedWords
      then (max (fst s) 55, snd s @ [Boost ''Modded app indicators'' 55])
      else s)"

text \<open>
  The three permission lists that \<open>generateFinalResult\<close> declares for itself. They are not
  the scorer's: the medium list has no call-log entries and the low list stops at the location
  permissions.
\<close>

definition aggHighRiskPerms :: "string list" where
  "aggHighRiskPerms =
    [''android.permission.BIND_ACCESSIBILITY_SERVICE'',
     ''android.permission.SYSTEM_ALERT_WINDOW'',
     ''android.permission.TYPE_APPLICATION_OVERLAY'']"

definition aggMediumRiskPerms :: "string list" where
  "aggMediumRiskPerms =
    [''android.permission.RECEIVE_SMS'',
     ''android.permission.READ_SMS'',
     ''android.permission.SEND_SMS'',
     ''android.permission.READ_CONTACTS'',
     ''android.permission.WRITE_CONTACTS'']"

definition aggLowRiskPerms :: "string list" where
  "aggLowRiskPerms =
    [''android.permission.CAMERA'',
     ''android.permission.RECORD_AUDIO'',
     ''android.permission.ACCESS_FINE_LOCATION'',
     ''android.permission.ACCESS_COARSE_LOCATION'']"

definition floorWhen :: "bool \<Rightarrow> string \<Rightarrow> int \<Rightarrow> scoring \<Rightarrow> scoring" where
  "floorWhen cond factor boost s =
     (if cond then (max (fst s) boost, snd s @ [Boost factor boost]) else s)"

definition permissionFloors :: "permissionAnalysis \<Rightarrow> scoring \<Rightarrow> scoring" where
  "permissionFloors pa s =
     (if length (pa_suspicious pa) > 0 then
        (let highRiskCount = length (filter (\<lambda>p. p \<in> set aggHighRiskPerms) (pa_suspicious pa));
             mediumRiskCount = length (filter (\<lambda>p. p \<in> set aggMediumRiskPerms) (pa_suspicious pa));
             lowRiskCount = length (filter (\<lambda>p. p \<in> set aggLowRiskPerms) (pa_suspicious pa));
             s = floorWhen (highRiskCount > 0)
                   (''High-risk permissions ('' @ showNat highRiskCount @ '')'')
                   (min (30 + int highRiskCount * 10) 60) s;
             s = floorWhen (mediumRiskCount \<ge> 2)
                   (''Multiple medium-risk permissions ('' @ showNat mediumRiskCount @ '')'')
                   (min (25 + int mediumRiskCount * 5) 45) s
         in floorWhen (lowRiskCount \<ge> 3)
              (''Multiple low-risk permissions ('' @ showNat lowRiskCount @ '')'')
              (min (20 + int lowRiskCount * 3) 35) s)
      else s)"

definition aggHighRiskPattern :: "pattern \<Rightarrow> bool" where
  "aggHighRiskPattern p =
     (let pat = toUpperCase (pat_pattern p)
      in includesStr pat ''SYSTEM_ALERT_WINDOW'' \<or>
         includesStr pat ''TYPE_APPLICATION_OVERLAY'' \<or>
         includesStr pat ''ACCESSIBILITYSERVICE'' \<or>
         includesStr pat ''KEYLOGGER'' \<or>
         includesStr pat ''SCREEN_CAPTURE'')"

definition aggMediumRiskPattern :: "pattern \<Rightarrow> bool" where
  "aggMediumRiskPattern p =
     (let pat = toUpperCase (pat_pattern p)
      in includesStr pat ''SMS'' \<or>
         includesStr pat ''CONTACTS'' \<or>
         includesStr pat ''CALL_LOG'' \<or>
         includesStr pat ''RECORD_AUDIO'' \<or>
         includesStr pat ''CAMERA'')"

definition codePatternFloors :: "codeAnalysis \<Rightarrow> scoring \<Rightarrow> scoring" where
  "codePatternFloors ca s =
     (if length (ca_suspiciousPatterns ca) > 0 then
        (let highCount = length (filter aggHighRiskPattern (ca_suspiciousPatterns ca));
             mediumCount = length (filter aggMediumRiskPattern (ca_suspiciousPatterns ca));
             s = floorWhen (highCount > 0)
                   (''High-risk code patterns ('' @ showNat highCount @ '')'')
                   (min (35 + int highCount * 8) 60) s
         in floorWhen (mediumCount \<ge> 2)
              (''Multiple medium-risk patterns ('' @ showNat mediumCount @ '')'')
              (min (25 + int mediumCount * 5) 45) s)
      else s)"

definition bankingReduction :: "string \<Rightarrow> string \<Rightarrow> scoring \<Rightarrow> scoring" where
  "bankingReduction filename pkg s =
     (if includesAny pkg bankingWords \<or> includesAny filename bankingWords then
        (if fst s < 60
         then (max (fst s - 15) 0, snd s @ [Reduction ''Legitimate banking app indicators'' 15])
         else s)
      else s)"

definition signatureReduction :: "manifestInfo \<Rightarrow> scoring \<Rightarrow> scoring" where
  "signatureReduction mi s =
     (if (case signatures mi of
            None \<Rightarrow> False
          | Some sigs \<Rightarrow> list_ex (\<lambda>sig. includesStr sig ''google'' \<or> includesStr sig ''android'') sigs)
      then (if fst s < 50
            then (max (fst s - 10) 0, snd s @ [Reduction ''Google/Android signature detected'' 10])
            else s)
      else s)"

definition noSignalsCap :: "permissionAnalysis \<Rightarrow> codeAnalysis \<Rightarrow> threatAnalysis \<Rightarrow> scoring \<Rightarrow> scoring" where
  "noSignalsCap pa ca ta s =
     (let noPermSignals = \<not> (length (pa_suspicious pa) > 0);
          noCodeSignals = \<not> (length (ca_suspiciousPatterns ca) > 0);
          noThreat = \<not> isKnownThreat ta
      in if noPermSignals \<and> noCodeSignals \<and> noThreat
         then (min (fst s) 20, snd s @ [Cap ''No suspicious signals detected'' 20])
         else s)"

definition lowSignalsGuard :: "permissionAnalysis \<Rightarrow> codeAnalysis \<Rightarrow> threatAnalysis \<Rightarrow> scoring \<Rightarrow> scoring" where
  "lowSignalsGuard pa ca ta s =
     (let lowPermRisk = pa_riskScore pa < 25;
          lowCodeRisk = ca_riskScore ca < 25;
          notKnownThreat = \<not> isKnownThreat ta
      in if lowPermRisk \<and> lowCodeRisk \<and> notKnownThreat
         then (min (fst s) 20,
               snd s @ [Cap ''Low signals guard (perm<25 & code<25, no known threat)'' 20])
         else s)"

datatype riskLevel = Safe | LowRisk | Suspicious | HighRisk | Malicious

definition determineRiskLevel :: "int \<Rightarrow> riskLevel" where
  "determineRiskLevel riskScore =
     (if riskScore < 30 then Safe
      else if riskScore < 50 then LowRisk
      else if riskScore < 70 then Suspicious
      else if riskScore < 85 then HighRisk
      else Malicious)"

definition calculateConfidence :: "permissionAnalysis \<Rightarrow> codeAnalysis \<Rightarrow> threatAnalysis \<Rightarrow> int" where
  "calculateConfidence pa ca ta =
     (if isKnownThreat ta then 95
      else if pa_riskScore pa > 50 \<or> ca_riskScore ca > 50 then 85
      else 70)"

fun joinWith :: "string \<Rightarrow> string list \<Rightarrow> string" where
  "joinWith sep [] = []"
| "joinWith sep [x] = x"
| "joinWith sep (x # y # ys) = x @ sep @ joinWith sep (y # ys)"

definition generateRecommendations :: "riskLevel \<Rightarrow> permissionAnalysis \<Rightarrow> codeAnalysis \<Rightarrow> string list" where
  "generateRecommendations level pa ca =
     (if level = Safe then
        [''This APK appears to be safe for installation'',
         ''Always download from official sources when possible'']
      else if level = Suspicious then
        [''Exercise caution - this APK has some suspicious characteristics'',
         ''Review the detailed analysis before making a decision'',
         ''Consider downloading from official sources instead'']
      else
        [''DO NOT INSTALL this APK - high risk of malware'',
         ''Delete the file immediately'',
         ''Report to your bank if this claims to be a banking app''])
     @ (if length (pa_suspicious pa) > 0
        then [''Review suspicious permissions: '' @ joinWith '', '' (pa_suspicious pa)]
        else [])"

record riskBreakdown =
  rb_baseScore :: int
  rb_permissionScore :: int
  rb_codeScore :: int
  rb_adjustments :: "adjustment list"
  rb_finalScore :: int

text \<open>
  The object \<open>generateFinalResult\<close> builds, without its id, status and time stamps: the
  status \<open>completed\<close> is the status of the job record that holds it.
\<close>

record finalResult =
  fr_riskLevel :: riskLevel
  fr_riskScore :: int
  fr_isSafe :: bool
  fr_confidence :: int
  fr_riskBreakdown :: riskBreakdown
  fr_fileAnalysis :: fileAnalysis
  fr_manifestAnalysis :: manifestInfo
  fr_permissionAnalysis :: permissionAnalysis
  fr_codeAnalysis :: codeAnalysis
  fr_threatAnalysis :: threatAnalysis
  fr_recommendations :: "string list"

text \<open>\<open>String(x || '')\<close> for a field that is a string or missing.\<close>

definition stringOrEmpty :: "jsval \<Rightarrow> string" where
  "stringOrEmpty v = (case v of Str s \<Rightarrow> s | _ \<Rightarrow> [])"

text \<open>
  The total on entry to the banking-indicator check: the base score after the name floors
  and the permission and code-pattern floors, with the adjustments logged so far.
\<close>

definition scoreBeforeBanking ::
  "fileAnalysis \<Rightarrow> manifestInfo \<Rightarrow> permissionAnalysis \<Rightarrow> codeAnalysis \<Rightarrow> threatAnalysis \<Rightarrow> scoring" where
  "scoreBeforeBanking fa mi pa ca ta =
     (let filename = toLowerCase (stringOrEmpty (fa_filename fa));
          pkg = toLowerCase (packageName mi);
          s = (calculateTotalRisk (pa_riskScore pa) (ca_riskScore ca) (Some ta), []);
          s = maliciousNameFloor filename pkg s;
          s = moddedNameFloor filename pkg s;
          s = permissionFloors pa s
      in codePatternFloors ca s)"

text \<open>
  The first \<open>try\<close> block of \<open>generateFinalResult\<close>. None of its operations can throw on
  values of these types, so its \<open>catch\<close> has no counterpart here.
\<close>

definition contextualAdjustments ::
  "fileAnalysis \<Rightarrow> manifestInfo \<Rightarrow> permissionAnalysis \<Rightarrow> codeAnalysis \<Rightarrow> threatAnalysis \<Rightarrow> scoring" where
  "contextualAdjustments fa mi pa ca ta =
     signatureReduction mi
       (bankingReduction (toLowerCase (stringOrEmpty (fa_filename fa))) (toLowerCase (packageName mi))
          (scoreBeforeBanking fa mi pa ca ta))"

definition finalScoring ::
  "fileAnalysis \<Rightarrow> manifestInfo \<Rightarrow> permissionAnalysis \<Rightarrow> codeAnalysis \<Rightarrow> threatAnalysis \<Rightarrow> scoring" where
  "finalScoring fa mi pa ca ta =
     (let s = contextualAdjustments fa mi pa ca ta;
          s = noSignalsCap pa ca ta s;
          s = lowSignalsGuard pa ca ta s
      in (max 0 (min (fst s) 100), snd s))"

definition generateFinalResult ::
  "fileAnalysis \<Rightarrow> manifestInfo \<Rightarrow> permissionAnalysis \<Rightarrow> codeAnalysis \<Rightarrow> threatAnalysis \<Rightarrow> finalResult" where
  "generateFinalResult fa mi pa ca ta =
     (let s = finalScoring fa mi pa ca ta;
          totalRiskScore = fst s;
          level = determineRiskLevel totalRiskScore
      in \<lparr> fr_riskLevel = level,
           fr_riskScore = totalRiskScore,
           fr_isSafe = (level = Safe),
           fr_confidence = calculateConfidence pa ca ta,
           fr_riskBreakdown =
             \<lparr> rb_baseScore = calculateTotalRisk (pa_riskScore pa) (ca_riskScore ca) (Some ta),
               rb_permissionScore = pa_riskScore pa,
               rb_codeScore = ca_riskScore ca,
               rb_adjustments = snd s,
               rb_finalScore = totalRiskScore \<rparr>,
           fr_fileAnalysis = fa,
           fr_manifestAnalysis = mi,
           fr_permissionAnalysis = pa,
           fr_codeAnalysis = ca,
           fr_threatAnalysis = ta,
           fr_recommendations = generateRecommendations level pa ca \<rparr>)"

section \<open>Manifest interpreter\<close>

text \<open>
  What the extracted tree holds at the path of \<open>AndroidManifest.xml\<close>: nothing, something
  that exists but cannot be read (a directory, an I/O failure; with the message of the
  error), or a file with its content. A thrown \<open>Error\<close> is modelled by \<open>Inl\<close> of its
  message.
\<close>

datatype fsEntry = Absent | Unreadable string | FileContent string

definition readFile :: "fsEntry \<Rightarrow> string + string" where
  "readFile entry =
     (case entry of
        Absent \<Rightarrow> Inl ''ENOENT: no such file or directory''
      | Unreadable message \<Rightarrow> Inl message
      | FileContent content \<Rightarrow> Inr content)"

text \<open>
  The XML library is outside the repository: \<open>parseString\<close> is its parser, \<open>rootAttributes\<close>
  reads \<open>package\<close>, \<open>versionCode\<close> and \<open>versionName\<close> off the parsed document (each
  defaulting to \<open>Unknown\<close>; a \<open>TypeError\<close> when the root has no attributes), and
  \<open>componentNames\<close> the names of the child elements of a kind.
\<close>

record 'doc xmlLibrary =
  parseString :: "string \<Rightarrow> string + 'doc"
  rootAttributes :: "'doc \<Rightarrow> string + (string \<times> string \<times> string)"
  componentNames :: "'doc \<Rightarrow> string \<Rightarrow> string list"

text \<open>
  \<open>extractPermissions\<close> evaluates \<open>manifest.manifest?.uses-permission || []\<close>, which is the
  subtraction of the variable \<open>permission\<close> from \<open>manifest.manifest?.uses\<close>. No variable of
  that name is in scope, so the evaluation throws a \<open>ReferenceError\<close> for every document.
\<close>

definition extractPermissions :: "'doc \<Rightarrow> string + string list" where
  "extractPermissions manifest = Inl ''permission is not defined''"

text \<open>The \<open>try\<close> block of \<open>analyzeManifest\<close>: the fields of the result in source order.\<close>

definition structuredManifest :: "'doc xmlLibrary \<Rightarrow> fsEntry \<Rightarrow> string + manifestInfo" where
  "structuredManifest lib entry =
     (case readFile entry of
        Inl e \<Rightarrow> Inl e
      | Inr manifestContent \<Rightarrow>
          (case parseString lib manifestContent of
             Inl e \<Rightarrow> Inl e
           | Inr manifest \<Rightarrow>
               (case rootAttributes lib manifest of
                  Inl e \<Rightarrow> Inl e
                | Inr (pkg, vcode, vname) \<Rightarrow>
                    (case extractPermissions manifest of
                       Inl e \<Rightarrow> Inl e
                     | Inr perms \<Rightarrow>
                         Inr \<lparr> packageName = pkg, versionCode = vcode, versionName = vname,
                               permissions = perms,
                               activities = componentNames lib manifest ''activity'',
                               services = componentNames lib manifest ''service'',
                               receivers = componentNames lib manifest ''receiver'',
                               providers = componentNames lib manifest ''provider'',
                               signatures = None \<rparr>))))"

definition NEEDLE :: string where
  "NEEDLE = ''android.permission.''"

definition KNOWN :: "string list" where
  "KNOWN =
    [''android.permission.READ_SMS'',
     ''android.permission.SEND_SMS'',
     ''android.permission.RECEIVE_SMS'',
     ''android.permission.BIND_ACCESSIBILITY_SERVICE'',
     ''android.permission.REQUEST_INSTALL_PACKAGES'',
     ''android.permission.SYSTEM_ALERT_WINDOW'',
     ''android.permission.WRITE_SETTINGS'',
     ''android.permission.PACKAGE_USAGE_STATS'',
     ''android.permission.RECEIVE_BOOT_COMPLETED'',
     ''android.permission.READ_CONTACTS'',
     ''android.permission.WRITE_CONTACTS'',
     ''android.permission.READ_CALL_LOG'',
     ''android.permission.WRITE_CALL_LOG'',
     ''android.permission.CAMERA'',
     ''android.permission.RECORD_AUDIO'',
     ''android.permission.ACCESS_FINE_LOCATION'',
     ''android.permission.ACCESS_COARSE_LOCATION'',
     ''android.permission.READ_PHONE_NUMBERS'',
     ''android.permission.READ_PHONE_STATE'',
     ''android.permission.INTERNET'',
     ''android.permission.ACCESS_NETWORK_STATE'',
     ''android.permission.READ_EXTERNAL_STORAGE'',
     ''android.permission.WRITE_EXTERNAL_STORAGE'',
     ''android.permission.BLUETOOTH'',
     ''android.permission.BLUETOOTH_CONNECT'',
     ''android.permission.NFC'',
     ''android.permission.WAKE_LOCK'',
     ''android.permission.FOREGROUND_SERVICE'']"

text \<open>The characters the scan extends a match over: \<open>A-Z\<close>, \<open>0-9\<close>, underscore, dot.\<close>

definition isValidChar :: "char \<Rightarrow> bool" where
  "isValidChar ch =
     (let n = (of_char ch :: nat)
      in (65 \<le> n \<and> n \<le> 90) \<or> (48 \<le> n \<and> n \<le> 57) \<or> n = 95 \<or> n = 46)"

text \<open>
  The scanning loop of \<open>extractPermissionsFromBinaryBuffer\<close> on the text from \<open>index\<close>
  on: at an occurrence of the needle the candidate is the needle and the run of valid
  characters after it, kept when it is shape-valid (the run is not empty), on the
  allow-list and not yet in the set; the scan goes on after the run. The bytes of the
  buffer stand for the decoded text: decoding does not change where ASCII text occurs.
\<close>

function scanPermissions :: "string \<Rightarrow> string list \<Rightarrow> string list" where
  "scanPermissions [] found = found"
| "scanPermissions (c # cs) found =
     (if startsWith (c # cs) NEEDLE then
        (let rest = drop (length NEEDLE) (c # cs);
             run = takeWhile isValidChar rest;
             candidate = NEEDLE @ run
         in scanPermissions (dropWhile isValidChar rest)
              (if run \<noteq> [] \<and> candidate \<in> set KNOWN \<and> candidate \<notin> set found
               then found @ [candidate] else found))
      else scanPermissions cs found)"
  by pat_completeness auto
termination
  by (relation "measure (\<lambda>(text, found). length text)")
     (auto simp: NEEDLE_def intro: le_less_trans [OF length_dropWhile_le])

definition extractPermissionsFromBinaryBuffer :: "string \<Rightarrow> string list" where
  "extractPermissionsFromBinaryBuffer buffer = scanPermissions buffer []"

text \<open>
  The text after \<open>name="\<close> up to the next double quote, as the group \<open>([^"]+)"\<close> matches
  it: at least one character, none of them a double quote, and the quote present.
\<close>

definition quotedValue :: "string \<Rightarrow> string option" where
  "quotedValue rest =
     (let v = takeWhile (\<lambda>ch. ch \<noteq> CHR 0x22) rest
      in if v \<noteq> [] \<and> startsWith (drop (length v) rest) [CHR 0x22] then Some v else None)"

text \<open>The first match of \<open>attr="([^"]+)"\<close> in the text; \<open>prefix\<close> is \<open>attr="\<close>.\<close>

fun firstMatch :: "string \<Rightarrow> string \<Rightarrow> string option" where
  "firstMatch prefix [] = None"
| "firstMatch prefix (c # cs) =
     (if startsWith (c # cs) prefix then
        (case quotedValue (drop (length prefix) (c # cs)) of
           Some v \<Rightarrow> Some v
         | None \<Rightarrow> firstMatch prefix cs)
      else firstMatch prefix cs)"

text \<open>All matches of the global expression, each search starting after the last match.\<close>

function allMatches :: "string \<Rightarrow> string \<Rightarrow> string list" where
  "allMatches prefix [] = []"
| "allMatches prefix (c # cs) =
     (if startsWith (c # cs) prefix then
        (case quotedValue (drop (length prefix) (c # cs)) of
           Some v \<Rightarrow> v # allMatches prefix (drop (length prefix + length v + 1) (c # cs))
         | None \<Rightarrow> allMatches prefix cs)
      else allMatches prefix cs)"
  by pat_completeness auto
termination
  by (relation "measure (\<lambda>(prefix, text). length text)") auto

definition extractPermissionsFallback :: "string \<Rightarrow> string list" where
  "extractPermissionsFallback manifestContent =
     filter (\<lambda>name. startsWith name ''android.permission.'')
            (allMatches (''android:name='' @ [CHR 0x22]) manifestContent)"

definition orUnknown :: "string option \<Rightarrow> string" where
  "orUnknown m = (case m of Some v \<Rightarrow> v | None \<Rightarrow> ''Unknown'')"

text \<open>
  The first handler of \<open>analyzeManifest\<close>: the permissions found by the binary scan, if
  any; a failure to read the buffer is caught and leads on to the text fallback.
\<close>

definition binaryManifest :: "fsEntry \<Rightarrow> manifestInfo option" where
  "binaryManifest entry =
     (case readFile entry of
        Inl binErr \<Rightarrow> None
      | Inr manifestBuffer \<Rightarrow>
          (let binaryPermissions = extractPermissionsFromBinaryBuffer manifestBuffer
           in if length binaryPermissions > 0
              then Some \<lparr> packageName = ''Unknown'', versionCode = ''Unknown'', versionName = ''Unknown'',
                          permissions = binaryPermissions,
                          activities = [], services = [], receivers = [], providers = [],
                          signatures = None \<rparr>
              else None))"

definition regexManifest :: "fsEntry \<Rightarrow> string + manifestInfo" where
  "regexManifest entry =
     (case readFile entry of
        Inl fallbackError \<Rightarrow> Inl ''Failed to analyze Android manifest file''
      | Inr manifestContent \<Rightarrow>
          Inr \<lparr> packageName = orUnknown (firstMatch (''package='' @ [CHR 0x22]) manifestContent),
                versionCode = orUnknown (firstMatch (''versionCode='' @ [CHR 0x22]) manifestContent),
                versionName = orUnknown (firstMatch (''versionName='' @ [CHR 0x22]) manifestContent),
                permissions = extractPermissionsFallback manifestContent,
                activities = [], services = [], receivers = [], providers = [],
                signatures = None \<rparr>)"

definition analyzeManifest :: "'doc xmlLibrary \<Rightarrow> fsEntry \<Rightarrow> string + manifestInfo" where
  "analyzeManifest lib entry =
     (if entry = Absent then Inl ''AndroidManifest.xml not found''
      else
        (case structuredManifest lib entry of
           Inr info \<Rightarrow> Inr info
         | Inl error \<Rightarrow>
             (case binaryManifest entry of
                Some info \<Rightarrow> Inr info
              | None \<Rightarrow> regexManifest entry)))"

section \<open>Placeholder assessments and example inputs\<close>

text \<open>The minimal placeholders \<open>analyzeAPK\<close> substitutes when a stage fails.\<close>

definition unknownManifest :: manifestInfo where
  "unknownManifest =
     \<lparr> packageName = ''Unknown'', versionCode = ''Unknown'', versionName = ''Unknown'',
       permissions = [], activities = [], services = [], receivers = [], providers = [],
       signatures = None \<rparr>"

definition minimalPermissions :: permissionAnalysis where
  "minimalPermissions = \<lparr> pa_total = 0, pa_suspicious = [], pa_banking = [], pa_riskScore = 0 \<rparr>"

definition minimalCode :: "string \<Rightarrow> codeAnalysis" where
  "minimalCode message =
     \<lparr> ca_dexFiles = 0, ca_suspiciousPatterns = [], ca_riskScore = 0, ca_error = Some message \<rparr>"

definition noThreat :: threatAnalysis where
  "noThreat = \<lparr> isKnownThreat = False, threatType = None, ta_confidence = Some 0, ta_description = None \<rparr>"

section \<open>The analysis job: analyzeAPK\<close>

datatype status = Processing | Completed | Failed

text \<open>
  The object stored for a job. \<open>analyzeAPK\<close> first stores an object with status,
  progress and steps; \<open>generateFinalResult\<close> replaces it by the result object, which has
  neither progress nor steps; the failure handlers add an error message. Each step is the
  pair of its name and description. Ids and time stamps are left out.
\<close>

record jobRecord =
  j_status :: status
  j_progress :: "int option"
  j_steps :: "(string \<times> string) list option"
  j_error :: "string option"
  j_result :: "finalResult option"

text \<open>
  The writes to the record of one job, oldest first; the record as it stands is the last.
\<close>

type_synonym trace = "jobRecord list"

definition initialRecord :: jobRecord where
  "initialRecord =
     \<lparr> j_status = Processing, j_progress = Some 0, j_steps = Some [],
       j_error = None, j_result = None \<rparr>"

text \<open>
  \<open>updateProgress\<close> sets the progress and pushes the step. On an object without a
  \<open>steps\<close> array the push throws a \<open>TypeError\<close>, after the progress has been set.
\<close>

definition updateProgress :: "int \<Rightarrow> string \<Rightarrow> string \<Rightarrow> trace \<Rightarrow> (string + unit) \<times> trace" where
  "updateProgress progress step description tr =
     (case j_steps (last tr) of
        Some steps \<Rightarrow>
          (Inr (), tr @ [(last tr)\<lparr>j_progress := Some progress,
                                   j_steps := Some (steps @ [(step, description)])\<rparr>])
      | None \<Rightarrow>
          (Inl ''TypeError: steps is undefined'', tr @ [(last tr)\<lparr>j_progress := Some progress\<rparr>]))"

definition markFailed :: "string \<Rightarrow> trace \<Rightarrow> trace" where
  "markFailed message tr = tr @ [(last tr)\<lparr>j_status := Failed, j_error := Some message\<rparr>]"

definition storeResult :: "finalResult \<Rightarrow> trace \<Rightarrow> trace" where
  "storeResult res tr =
     tr @ [\<lparr> j_status = Completed, j_progress = None, j_steps = None,
              j_error = None, j_result = Some res \<rparr>]"

text \<open>
  The timer callback: it calls \<open>updateProgress\<close> with progress 0 without awaiting it (a
  rejection is lost), then marks the record failed.
\<close>

definition timeoutHandler :: "trace \<Rightarrow> trace" where
  "timeoutHandler tr =
     markFailed ''Analysis timeout - process took too long''
       (snd (updateProgress 0 ''Timeout'' ''Analysis took too long and was cancelled'' tr))"

text \<open>
  The timer can fire only while the job awaits input or output, with the timer set: during
  the file analysis, the extraction, the manifest analysis, the code analysis, or the
  removal of the extracted files. \<open>awaiting\<close> is such a wait; the callback runs in it
  when this is the moment the timer fires in this run.
\<close>

datatype timerPoint =
  DuringFileAnalysis | DuringExtraction | DuringManifest | DuringCodeAnalysis | DuringCleanup

definition awaiting :: "timerPoint option \<Rightarrow> timerPoint \<Rightarrow> trace \<Rightarrow> trace" where
  "awaiting timer point tr = (if timer = Some point then timeoutHandler tr else tr)"

text \<open>
  What the world outside does in one run: the outcome of each call that reads the disk,
  the threat map, the moment the timer fires if it does, and an unexpected error, if any,
  thrown by the threat check or by \<open>generateFinalResult\<close> (before it stores its result),
  in the main path and again in the fallback path.
\<close>

record env =
  e_file :: "string + fileAnalysis"
  e_extract :: "string option"
  e_manifest :: "string + manifestInfo"
  e_scan :: "string + (nat \<times> pattern list)"
  e_threats :: threatMap
  e_threatError :: "string option"
  e_finalError :: "string option"
  e_fileAgain :: "string + fileAnalysis"
  e_threatErrorAgain :: "string option"
  e_finalErrorAgain :: "string option"
  e_timer :: "timerPoint option"

text \<open>\<open>analyzeCode\<close> catches every error of its two scans and returns the fallback.\<close>

definition analyzeCode :: "env \<Rightarrow> codeAnalysis" where
  "analyzeCode env =
     (case e_scan env of
        Inr (dexFiles, suspiciousPatterns) \<Rightarrow>
          \<lparr> ca_dexFiles = dexFiles, ca_suspiciousPatterns = suspiciousPatterns,
            ca_riskScore = calculateCodeRisk suspiciousPatterns, ca_error = None \<rparr>
      | Inl message \<Rightarrow>
          \<lparr> ca_dexFiles = 0, ca_suspiciousPatterns = [], ca_riskScore = 0, ca_error = Some message \<rparr>)"

definition placeholders :: "string \<Rightarrow> manifestInfo \<times> permissionAnalysis \<times> codeAnalysis" where
  "placeholders message = (unknownManifest, minimalPermissions, minimalCode message)"

text \<open>
  The inner \<open>try\<close> of the main path, from the extraction to the code analysis, with its
  handler: whatever is thrown inside, the three placeholders are substituted.
\<close>

definition extractionStages ::
  "env \<Rightarrow> trace \<Rightarrow> (manifestInfo \<times> permissionAnalysis \<times> codeAnalysis) \<times> trace" where
  "extractionStages env tr0 =
     (let tr1 = awaiting (e_timer env) DuringExtraction tr0 in
      (case e_extract env of
         Some e \<Rightarrow> (placeholders e, tr1)
       | None \<Rightarrow>
           (case updateProgress 60 ''Manifest Analysis'' ''Analyzing Android manifest file'' tr1 of
              (Inl e, tr2) \<Rightarrow> (placeholders e, tr2)
            | (Inr u, tr2) \<Rightarrow>
                (let tr3 = awaiting (e_timer env) DuringManifest tr2 in
                 (case e_manifest env of
                    Inl e \<Rightarrow> (placeholders e, tr3)
                  | Inr manifestAnalysis \<Rightarrow>
                      (case updateProgress 80 ''Permission Check'' ''Analyzing requested permissions'' tr3 of
                         (Inl e, tr4) \<Rightarrow> (placeholders e, tr4)
                       | (Inr u, tr4) \<Rightarrow>
                           (case updateProgress 90 ''Code Analysis'' ''Checking for malicious code patterns'' tr4 of
                              (Inl e, tr5) \<Rightarrow> (placeholders e, tr5)
                            | (Inr u, tr5) \<Rightarrow>
                                ((manifestAnalysis,
                                  analyzePermissions (permissions manifestAnalysis),
                                  analyzeCode env),
                                 awaiting (e_timer env) DuringCodeAnalysis tr5))))))))"

text \<open>
  The main path from the threat check on, given the assessments. The result is \<open>Inl\<close> of
  the message when a step throws.
\<close>

definition finishMain ::
  "env \<Rightarrow> fileAnalysis \<Rightarrow> manifestInfo \<times> permissionAnalysis \<times> codeAnalysis \<Rightarrow> trace
     \<Rightarrow> (string + unit) \<times> trace" where
  "finishMain env fileAnalysis assessments tr0 =
     (case updateProgress 95 ''Database Check'' ''Comparing with known threats'' tr0 of
        (Inl e, tr1) \<Rightarrow> (Inl e, tr1)
      | (Inr u, tr1) \<Rightarrow>
          (case e_threatError env of
             Some e \<Rightarrow> (Inl e, tr1)
           | None \<Rightarrow>
               (case updateProgress 100 ''Finalizing'' ''Generating security report'' tr1 of
                  (Inl e, tr2) \<Rightarrow> (Inl e, tr2)
                | (Inr u, tr2) \<Rightarrow>
                    (case e_finalError env of
                       Some e \<Rightarrow> (Inl e, tr2)
                     | None \<Rightarrow>
                         (Inr (),
                          awaiting (e_timer env) DuringCleanup
                            (storeResult
                               (generateFinalResult fileAnalysis (fst assessments)
                                  (fst (snd assessments)) (snd (snd assessments))
                                  (checkThreatDatabase (e_threats env) fileAnalysis (fst assessments)))
                               tr2))))))"

definition mainPath :: "env \<Rightarrow> trace \<Rightarrow> (string + unit) \<times> trace" where
  "mainPath env tr0 =
     (case updateProgress 20 ''File Analysis'' ''Examining file structure and integrity'' tr0 of
        (Inl e, tr1) \<Rightarrow> (Inl e, tr1)
      | (Inr u, tr1) \<Rightarrow>
          (let tr2 = awaiting (e_timer env) DuringFileAnalysis tr1 in
           (case e_file env of
              Inl e \<Rightarrow> (Inl e, tr2)
            | Inr fileAnalysis \<Rightarrow>
                (case updateProgress 40 ''Extracting APK'' ''Extracting and parsing APK contents'' tr2 of
                   (Inl e, tr3) \<Rightarrow> (Inl e, tr3)
                 | (Inr u, tr3) \<Rightarrow>
                     finishMain env fileAnalysis (fst (extractionStages env tr3))
                       (snd (extractionStages env tr3))))))"

text \<open>The file analysis substituted in the fallback path when the file cannot be read.\<close>

definition unreadableFile :: fileAnalysis where
  "unreadableFile =
     \<lparr> fa_size = 0, fa_hash = Null, fa_hashSha1 = Null, fa_isValidAPK = False,
       fa_filename = Undefined \<rparr>"

text \<open>
  The handler of the main path: the timer is cleared, the assessments are the
  placeholders, and the verdict is built again; if that fails too the job is marked
  failed with the message of the error that led here.
\<close>

definition fallbackPath :: "env \<Rightarrow> string \<Rightarrow> trace \<Rightarrow> trace" where
  "fallbackPath env stepError tr0 =
     (let fileAnalysis = (case e_fileAgain env of Inr fa \<Rightarrow> fa | Inl e \<Rightarrow> unreadableFile);
          threatAnalysis =
            (case e_threatErrorAgain env of
               None \<Rightarrow> checkThreatDatabase (e_threats env) fileAnalysis unknownManifest
             | Some e \<Rightarrow> \<lparr> isKnownThreat = False, threatType = None,
                            ta_confidence = None, ta_description = None \<rparr>)
      in (case updateProgress 100 ''Finalizing (fallback)''
                 ''Completing with minimal analysis due to an error'' tr0 of
            (Inl e, tr1) \<Rightarrow> markFailed stepError tr1
          | (Inr u, tr1) \<Rightarrow>
              (case e_finalErrorAgain env of
                 Some e \<Rightarrow> markFailed stepError tr1
               | None \<Rightarrow>
                   storeResult
                     (generateFinalResult fileAnalysis unknownManifest minimalPermissions
                        (minimalCode stepError) threatAnalysis)
                     tr1)))"

text \<open>
  \<open>analyzeAPK\<close>: the writes to the job record in one run. The outermost handler is reached
  only when the first \<open>updateProgress\<close> throws; it reports progress 0 and marks the job
  failed, and when its own \<open>updateProgress\<close> throws nothing more is written.
\<close>

definition analyzeAPK :: "env \<Rightarrow> trace" where
  "analyzeAPK env =
     (case updateProgress 5 ''Starting'' ''Initializing analysis'' [initialRecord] of
        (Inl e, tr1) \<Rightarrow>
          (case updateProgress 0 ''Error'' (''Analysis failed: '' @ e) tr1 of
             (Inl e2, tr2) \<Rightarrow> tr2
           | (Inr u, tr2) \<Rightarrow> markFailed e tr2)
      | (Inr u, tr1) \<Rightarrow>
          (case mainPath env tr1 of
             (Inr u, tr2) \<Rightarrow> tr2
           | (Inl stepError, tr2) \<Rightarrow> fallbackPath env stepError tr2))"

text \<open>
  The error that sends a run from the main path to its handler, if there is one: the
  first of the file analysis, the threat check and the building of the verdict to throw.
  The errors of the extraction and of the manifest analysis are caught before, inside.
\<close>

definition stepError :: "env \<Rightarrow> string option" where
  "stepError env =
     (case e_file env of
        Inl e \<Rightarrow> Some e
      | Inr fa \<Rightarrow> (case e_threatError env of Some e \<Rightarrow> Some e | None \<Rightarrow> e_finalError env))"

definition stageError :: "env \<Rightarrow> string option" where
  "stageError env =
     (case e_extract env of
        Some e \<Rightarrow> Some e
      | None \<Rightarrow> (case e_manifest env of Inl e \<Rightarrow> Some e | Inr mi \<Rightarrow> None))"

text \<open>The properties of a trace that the job tracker is to keep.\<close>

definition progressValues :: "trace \<Rightarrow> int list" where
  "progressValues tr = List.map_filter j_progress (filter (\<lambda>r. j_status r = Processing) tr)"

definition isTerminal :: "status \<Rightarrow> bool" where
  "isTerminal s = (s = Completed \<or> s = Failed)"

text \<open>The terminal statuses in the order they were set, a repeated write of one counted once.\<close>

definition terminalStatusesSet :: "trace \<Rightarrow> status list" where
  "terminalStatusesSet tr = remdups_adj (filter isTerminal (map j_status tr))"

text \<open>The records written from the first terminal one on all carry its error and result.\<close>

definition outcomeFrozen :: "trace \<Rightarrow> bool" where
  "outcomeFrozen tr =
     (case dropWhile (\<lambda>r. \<not> isTerminal (j_status r)) tr of
        [] \<Rightarrow> True
      | r # rs \<Rightarrow> list_all (\<lambda>r'. j_error r' = j_error r \<and> j_result r' = j_result r) rs)"

text \<open>A run in which every stage succeeds, and the timer fires during the extraction.\<close>

definition slowExtraction :: env where
  "slowExtraction =
     \<lparr> e_file = Inr \<lparr> fa_size = 2048, fa_hash = Str ''0f0f0f0f'', fa_hashSha1 = Str ''1e1e1e1e'',
                       fa_isValidAPK = True, fa_filename = Undefined \<rparr>,
       e_extract = None,
       e_manifest = Inr \<lparr> packageName = ''Unknown'', versionCode = ''Unknown'', versionName = ''Unknown'',
                           permissions = [''android.permission.CAMERA''],
                           activities = [], services = [], receivers = [], providers = [],
                           signatures = None \<rparr>,
       e_scan = Inr (1, []),
       e_threats = Map.empty,
       e_threatError = None,
       e_finalError = None,
       e_fileAgain = Inl ''unused'',
       e_threatErrorAgain = None,
       e_finalErrorAgain = None,
       e_timer = Some DuringExtraction \<rparr>"

text \<open>A file whose SHA-256 digest is on record, and the record (digest shortened).\<close>

definition exampleFile :: fileAnalysis where
  "exampleFile =
     \<lparr> fa_size = 2048, fa_hash = Str ''e3b0c442'', fa_hashSha1 = Str ''a94a8fe5'',
       fa_isValidAPK = True, fa_filename = Undefined \<rparr>"

definition exampleThreat :: threat where
  "exampleThreat =
     \<lparr> t_id = Str ''threat_001'', t_hash = Str ''e3b0c442'', t_packageName = Str ''com.fakebanking.app'',
       t_type = ''banking_trojan'', t_family = Str ''Anubis'', t_confidence = 95,
       t_description = ''Fake banking application designed to steal credentials'',
       t_severity = Str ''high'', t_tags = [''banking'', ''trojan''],
       t_firstSeen = Str ''2024-01-01'', t_lastSeen = Str ''2024-01-01'' \<rparr>"

definition exampleThreats :: threatMap where
  "exampleThreats = [Str ''e3b0c442'' \<mapsto> exampleThreat, Str ''com.fakebanking.app'' \<mapsto> exampleThreat]"

text \<open>A package named like a banking app that requests two high-tier permissions.\<close>

definition bankManifest :: manifestInfo where
  "bankManifest =
     \<lparr> packageName = ''com.example.bank'', versionCode = ''1'', versionName = ''1.0'',
       permissions = [''android.permission.SYSTEM_ALERT_WINDOW'',
                      ''android.permission.BIND_ACCESSIBILITY_SERVICE''],
       activities = [], services = [], receivers = [], providers = [],
       signatures = None \<rparr>"

definition cleanCode :: codeAnalysis where
  "cleanCode = \<lparr> ca_dexFiles = 1, ca_suspiciousPatterns = [], ca_riskScore = 0, ca_error = None \<rparr>"

text \<open>A package with a malware word in its name and no permission at all.\<close>

definition trojanManifest :: manifestInfo where
  "trojanManifest =
     \<lparr> packageName = ''com.trojan.app'', versionCode = ''1'', versionName = ''1.0'',
       permissions = [], activities = [], services = [], receivers = [], providers = [],
       signatures = None \<rparr>"

text \<open>A package named like a wallet app that requests one high-tier permission.\<close>

definition walletManifest :: manifestInfo where
  "walletManifest =
     \<lparr> packageName = ''com.example.wallet'', versionCode = ''1'', versionName = ''1.0'',
       permissions = [''android.permission.SYSTEM_ALERT_WINDOW''],
       activities = [], services = [], receivers = [], providers = [],
       signatures = None \<rparr>"

text \<open>The adjustments that raise the total.\<close>

fun isBoost :: "adjustment \<Rightarrow> bool" where
  "isBoost (Boost f b) = True"
| "isBoost (Reduction f r) = False"
| "isBoost (Cap f c) = False"

section \<open>Invariants of a run and example runs\<close>

text \<open>The record as it stands has a \<open>steps\<close> array, so that \<open>updateProgress\<close> does not throw.\<close>

definition hasSteps :: "trace \<Rightarrow> bool" where
  "hasSteps tr = (j_steps (last tr) \<noteq> None)"

text \<open>The write \<open>updateProgress\<close> makes on such a record.\<close>

definition progressWrite :: "int \<Rightarrow> string \<Rightarrow> string \<Rightarrow> trace \<Rightarrow> trace" where
  "progressWrite p s d tr =
     tr @ [(last tr)\<lparr>j_progress := Some p,
                      j_steps := map_option (\<lambda>steps. steps @ [(s, d)]) (j_steps (last tr))\<rparr>]"

text \<open>The assessments that leave the inner \<open>try\<close>: the placeholders after an error inside.\<close>

definition assessmentsOf :: "env \<Rightarrow> manifestInfo \<times> permissionAnalysis \<times> codeAnalysis" where
  "assessmentsOf env =
     (case stageError env of
        Some e \<Rightarrow> placeholders e
      | None \<Rightarrow>
          (case e_manifest env of
             Inr mi \<Rightarrow> (mi, analyzePermissions (permissions mi), analyzeCode env)
           | Inl e \<Rightarrow> placeholders e))"

text \<open>The record that \<open>generateFinalResult\<close> stores.\<close>

definition completedRecord :: "finalResult \<Rightarrow> jobRecord" where
  "completedRecord res =
     \<lparr> j_status = Completed, j_progress = None, j_steps = None, j_error = None, j_result = Some res \<rparr>"

text \<open>
  A trace of a job that is still running: every record written is non-terminal and has its
  steps, and the progress values written are in non-decreasing order and at most \<open>b\<close>.
\<close>

definition runningUpTo :: "int \<Rightarrow> trace \<Rightarrow> bool" where
  "runningUpTo b tr =
     (tr \<noteq> [] \<and> hasSteps tr
      \<and> list_all (\<lambda>r. j_status r = Processing) tr
      \<and> sorted (List.map_filter j_progress tr)
      \<and> list_all (\<lambda>p. p \<le> b) (List.map_filter j_progress tr))"

text \<open>A trace of a job that ran and then ended with one terminal write, the last.\<close>

definition endsOnce :: "trace \<Rightarrow> bool" where
  "endsOnce tr = (\<exists>tr' r. tr = tr' @ [r] \<and> runningUpTo 100 tr' \<and> isTerminal (j_status r))"

text \<open>An XML parser that rejects its input, as on a compiled manifest.\<close>

definition exampleXml :: "unit xmlLibrary" where
  "exampleXml =
     \<lparr> parseString = (\<lambda>text. Inl ''Non-whitespace before first tag.''),
       rootAttributes = (\<lambda>doc. Inr (''Unknown'', ''Unknown'', ''Unknown'')),
       componentNames = (\<lambda>doc kind. []) \<rparr>"

text \<open>A run on a package that has no manifest file.\<close>

definition missingManifestRun :: env where
  "missingManifestRun =
     \<lparr> e_file = Inr exampleFile,
       e_extract = None,
       e_manifest = analyzeManifest exampleXml Absent,
       e_scan = Inr (0, []),
       e_threats = Map.empty,
       e_threatError = None,
       e_finalError = None,
       e_fileAgain = Inr exampleFile,
       e_threatErrorAgain = None,
       e_finalErrorAgain = None,
       e_timer = None \<rparr>"

text \<open>A run on a file that cannot be read, in which building the verdict fails as well.\<close>

definition unreadableRun :: env where
  "unreadableRun =
     \<lparr> e_file = Inl ''EACCES: permission denied'',
       e_extract = None,
       e_manifest = Inl ''unused'',
       e_scan = Inr (0, []),
       e_threats = Map.empty,
       e_threatError = None,
       e_finalError = None,
       e_fileAgain = Inl ''EACCES: permission denied'',
       e_threatErrorAgain = None,
       e_finalErrorAgain = Some ''out of memory'',
       e_timer = None \<rparr>"


section \<open>Properties of the risk aggregation\<close>

lemma js_round_of_int: "js_round (of_int n) = n"
  unfolding js_round_def by linarith

lemma js_round_weighted:
  "js_round ((55 / 100) * of_int p + (45 / 100) * of_int c) = (11 * p + 9 * c + 10) div 20"
proof -
  have "(55 / 100) * (of_int p :: rat) + (45 / 100) * of_int c + 1 / 2
          = of_int (11 * p + 9 * c + 10) / of_int 20"
    by (simp add: field_simps)
  then show ?thesis
    unfolding js_round_def by (metis floor_divide_of_int_eq)
qed

lemma calculateTotalRisk_int:
  "calculateTotalRisk p c ta =
     (let totalRisk = (11 * p + 9 * c + 10) div 20;
          totalRisk = (if p \<ge> 60 \<or> c \<ge> 60 then max totalRisk 70 else totalRisk);
          totalRisk = (if knownThreat ta then max totalRisk 90 else totalRisk);
          totalRisk = (if (p < 15 \<and> c < 15) \<and> \<not> knownThreat ta then min totalRisk 20 else totalRisk)
      in max 0 (min totalRisk 100))"
  unfolding calculateTotalRisk_def js_round_weighted js_round_of_int ..

lemma clamp_range: "0 \<le> max 0 (min x 100) \<and> max 0 (min x 100) \<le> (100::int)"
  by simp

lemma calculateTotalRisk_range: "0 \<le> calculateTotalRisk p c ta \<and> calculateTotalRisk p c ta \<le> 100"
  unfolding calculateTotalRisk_int Let_def by (rule clamp_range)

text \<open>
  C1. For all sub-scores \<open>p\<close> and \<open>c\<close> and every threat-lookup result, \<open>calculateTotalRisk\<close>
  returns the weighted sum 0.55 p + 0.45 c rounded to the nearest integer (a half going up,
  which in integers is \<open>(11 p + 9 c + 10) div 20\<close>), then raised to at least 70 when a
  sub-score is 60 or more, then raised to at least 90 when the threat lookup matched, then
  lowered to at most 20 when both sub-scores are below 15 and nothing matched, and the
  value returned lies between 0 and 100.
\<close>

theorem calculateTotalRisk_guard_rails:
  "calculateTotalRisk p c ta =
     (let base = js_round ((55 / 100) * of_int p + (45 / 100) * of_int c);
          s1 = (if p \<ge> 60 \<or> c \<ge> 60 then max base 70 else base);
          s2 = (if knownThreat ta then max s1 90 else s1);
          s3 = (if p < 15 \<and> c < 15 \<and> \<not> knownThreat ta then min s2 20 else s2)
      in max 0 (min s3 100))
   \<and> js_round ((55 / 100) * of_int p + (45 / 100) * of_int c) = (11 * p + 9 * c + 10) div 20
   \<and> 0 \<le> calculateTotalRisk p c ta \<and> calculateTotalRisk p c ta \<le> 100"
proof (intro conjI)
  show "calculateTotalRisk p c ta =
     (let base = js_round ((55 / 100) * of_int p + (45 / 100) * of_int c);
          s1 = (if p \<ge> 60 \<or> c \<ge> 60 then max base 70 else base);
          s2 = (if knownThreat ta then max s1 90 else s1);
          s3 = (if p < 15 \<and> c < 15 \<and> \<not> knownThreat ta then min s2 20 else s2)
      in max 0 (min s3 100))"
    unfolding calculateTotalRisk_def js_round_of_int conj_assoc ..
  show "js_round ((55 / 100) * of_int p + (45 / 100) * of_int c) = (11 * p + 9 * c + 10) div 20"
    by (rule js_round_weighted)
  show "0 \<le> calculateTotalRisk p c ta" and "calculateTotalRisk p c ta \<le> 100"
    using calculateTotalRisk_range [of p c ta] by simp_all
qed

theorem calculateTotalRisk_guard_rails_witness:
  "calculateTotalRisk 70 10 None = 70
   \<and> calculateTotalRisk 10 10 (Some \<lparr> isKnownThreat = True, threatType = None,
                                      ta_confidence = None, ta_description = None \<rparr>) = 90
   \<and> calculateTotalRisk 10 0 None = 6"
  using calculateTotalRisk_guard_rails [of 70 10 None]
        calculateTotalRisk_guard_rails [of 10 10 "Some \<lparr> isKnownThreat = True, threatType = None,
                                      ta_confidence = None, ta_description = None \<rparr>"]
        calculateTotalRisk_guard_rails [of 10 0 None]
  by (simp add: knownThreat_def)

section \<open>Properties of the permission scorer\<close>

lemma foldl_permissionStep:
  "foldl permissionStep a xs =
     a + 25 * countTier High xs + 15 * countTier Medium xs
       + 8 * countTier Low xs + 10 * countTier Unrecognized xs"
  by (induction xs arbitrary: a) (auto simp: permissionStep_def countTier_def permissionTier_def)

lemma lowRiskPerms_tier: "p \<in> set lowRiskPerms \<longleftrightarrow> permissionTier p = Low"
  unfolding permissionTier_def lowRiskPerms_def highRiskPerms_def mediumRiskPerms_def
  by auto

lemma countTier_single: "countTier t [p] = (if permissionTier p = t then 1 else 0)"
  by (simp add: countTier_def)

lemma countTier_nonneg: "0 \<le> countTier t ps"
  by (simp add: countTier_def)

lemma single_low_adjustment:
  "(case matched of [p] \<Rightarrow> if p \<in> set lowRiskPerms then max (r - 5) 0 else r | _ \<Rightarrow> r)
     = (if length matched = 1 \<and> countTier Low matched = 1 then max (r - 5) 0 else (r::int))"
proof (cases matched)
  case Nil
  then show ?thesis by simp
next
  case (Cons a as)
  then show ?thesis
    by (cases as) (auto simp: countTier_single lowRiskPerms_tier)
qed

lemma single_low_only:
  "length matched = 1 \<and> countTier Low matched = 1 \<Longrightarrow>
     countTier High matched = 0 \<and> countTier Medium matched = 0 \<and> countTier Unrecognized matched = 0"
  by (cases matched) (auto simp: countTier_single split: if_splits)

text \<open>
  C6. For every permission list, the permission risk score is 10, plus 25 for each matched
  suspicious permission of the high tier, 15 for each of the medium tier, 8 for each of the
  low tier and 10 for each other one, minus 5 when exactly one suspicious permission matched
  and it is of the low tier, plus 15 when five or more matched, and the result clamped to
  the range 0 to 100.
\<close>

theorem permission_risk_formula:
  "pa_riskScore (analyzePermissions ps) =
     (let matched = filter (\<lambda>p. p \<in> set suspiciousPermissions) ps;
          raw = 10 + 25 * countTier High matched + 15 * countTier Medium matched
                   + 8 * countTier Low matched + 10 * countTier Unrecognized matched
                   - (if length matched = 1 \<and> countTier Low matched = 1 then 5 else 0)
                   + (if length matched \<ge> 5 then 15 else 0)
      in max 0 (min 100 raw))"
proof -
  define matched where "matched = filter (\<lambda>p. p \<in> set suspiciousPermissions) ps"
  show ?thesis
    unfolding analyzePermissions_def calculatePermissionRisk_def Let_def
    apply (simp only: permissionAnalysis.simps matched_def [symmetric]
                      single_low_adjustment foldl_permissionStep)
    using countTier_nonneg [of High matched] countTier_nonneg [of Medium matched]
          countTier_nonneg [of Low matched] countTier_nonneg [of Unrecognized matched]
          single_low_only [of matched]
    by (auto simp: min_def max_def)
qed

lemma permission_example_matched:
  "filter (\<lambda>p. p \<in> set suspiciousPermissions)
          [''android.permission.INTERNET'', ''android.permission.CAMERA'']
     = [''android.permission.CAMERA'']"
  by (simp add: suspiciousPermissions_def)

lemma permission_example_tier: "permissionTier ''android.permission.CAMERA'' = Low"
  by (simp add: permissionTier_def highRiskPerms_def mediumRiskPerms_def lowRiskPerms_def)

theorem permission_risk_formula_witness:
  "pa_riskScore (analyzePermissions [''android.permission.INTERNET'', ''android.permission.CAMERA'']) = 13"
  using permission_risk_formula [of "[''android.permission.INTERNET'', ''android.permission.CAMERA'']"]
  unfolding permission_example_matched Let_def countTier_single permission_example_tier
  by simp

section \<open>Properties of the code pattern score\<close>

lemma discount_clamp:
  "0 \<le> S \<Longrightarrow>
   min (if c5 then max ((if c4 then max (S - 5) 0 else S) - 10) 0
        else (if c4 then max (S - 5) 0 else S)) 100
     = max 0 (min 100 (S - (if c4 then 5 else 0) - (if c5 then 10 else (0::int))))"
  by (auto simp: min_def max_def)

lemma codeRiskFromCounts_clamped:
  "codeRiskFromCounts h m l n =
     max 0 (min 100 ((if h \<ge> 1 then min (25 + 8 * h) 60 else 0)
                    + (if m \<ge> 2 then min (20 + 5 * m) 40 else 0)
                    + (if l \<ge> 3 then min (15 + 3 * l) 30 else 0)
                    - (if n = 1 \<and> l = 1 then 5 else 0)
                    - (if h = 0 \<and> m = 0 then 10 else 0)))"
proof -
  define H where "H = (if h \<ge> 1 then min (25 + 8 * h) 60 else 0)"
  define M where "M = (if m \<ge> 2 then min (20 + 5 * m) 40 else 0)"
  define L where "L = (if l \<ge> 3 then min (15 + 3 * l) 30 else 0)"
  have nonneg: "0 \<le> H + M + L"
    unfolding H_def M_def L_def by simp
  have H: "(if h > 0 then 0 + min (25 + h * 8) 60 else 0) = H"
    unfolding H_def by (auto simp: mult.commute)
  have M: "(if m \<ge> 2 then x + min (20 + m * 5) 40 else x) = x + M" for x
    unfolding M_def by (auto simp: mult.commute)
  have L: "(if l \<ge> 3 then x + min (15 + l * 3) 30 else x) = x + L" for x
    unfolding L_def by (auto simp: mult.commute)
  have "codeRiskFromCounts h m l n =
          max 0 (min 100 (H + M + L - (if n = 1 \<and> l = 1 then 5 else 0)
                                    - (if h = 0 \<and> m = 0 then 10 else 0)))"
    unfolding codeRiskFromCounts_def Let_def H M L
    by (rule discount_clamp [OF nonneg])
  then show ?thesis
    unfolding H_def M_def L_def .
qed

text \<open>
  C7. For every list of matched code patterns, with \<open>h\<close>, \<open>m\<close> and \<open>l\<close> the numbers of
  high-, medium- and low-risk patterns in it, the code risk score is the sum of
  min (25 + 8 h, 60) when \<open>h\<close> is at least one, of min (20 + 5 m, 40) when \<open>m\<close> is at least
  two and of min (15 + 3 l, 30) when \<open>l\<close> is at least three, less 5 when the only match is
  a single low-risk pattern, less 10 when no high- or medium-risk pattern matched, clamped
  to the range 0 to 100.
\<close>

theorem code_risk_formula:
  assumes "h = int (length (highRiskPatterns ps))"
    and "m = int (length (mediumRiskPatterns ps))"
    and "l = int (length (lowRiskPatterns ps))"
  shows "calculateCodeRisk ps =
           max 0 (min 100 ((if h \<ge> 1 then min (25 + 8 * h) 60 else 0)
                          + (if m \<ge> 2 then min (20 + 5 * m) 40 else 0)
                          + (if l \<ge> 3 then min (15 + 3 * l) 30 else 0)
                          - (if length ps = 1 \<and> l = 1 then 5 else 0)
                          - (if h = 0 \<and> m = 0 then 10 else 0)))"
  unfolding calculateCodeRisk_def codeRiskFromCounts_clamped assms [symmetric] ..

lemma toUpperCase_examples:
  "toUpperCase ''SmsManager'' = ''SMSMANAGER''"
  "toUpperCase ''AccessibilityService'' = ''ACCESSIBILITYSERVICE''"
  by (simp_all add: toUpperCase_def toUpperChar_def char_of_eq_iff)

lemma pattern_tier_examples:
  "isHighRiskPattern ''ACCESSIBILITYSERVICE''"
  "\<not> isHighRiskPattern ''SMSMANAGER''"
  "isMediumRiskPattern ''SMSMANAGER''"
  by (simp_all add: isHighRiskPattern_def isMediumRiskPattern_def)

theorem code_risk_formula_witness:
  "calculateCodeRisk [\<lparr>pat_pattern = ''AccessibilityService'', pat_file = ''classes.dex'', pat_confidence = ConfHigh\<rparr>,
                      \<lparr>pat_pattern = ''SmsManager'', pat_file = ''classes.dex'', pat_confidence = ConfLow\<rparr>] = 33"
proof -
  let ?ps = "[\<lparr>pat_pattern = ''AccessibilityService'', pat_file = ''classes.dex'', pat_confidence = ConfHigh\<rparr>,
              \<lparr>pat_pattern = ''SmsManager'', pat_file = ''classes.dex'', pat_confidence = ConfLow\<rparr>]"
  have h: "1 = int (length (highRiskPatterns ?ps))"
    by (simp add: highRiskPatterns_def patternText_def toUpperCase_examples pattern_tier_examples)
  have m: "1 = int (length (mediumRiskPatterns ?ps))"
    by (simp add: mediumRiskPatterns_def patternText_def toUpperCase_examples pattern_tier_examples)
  have l: "0 = int (length (lowRiskPatterns ?ps))"
    by (simp add: lowRiskPatterns_def patternText_def toUpperCase_examples pattern_tier_examples)
  show ?thesis
    using code_risk_formula [OF h m l] by simp
qed

section \<open>Properties of the final verdict\<close>

lemma known_floor: "90 \<le> max 0 (min (max x 90) (100::int))"
  by simp

lemma calculateTotalRisk_known:
  assumes "knownThreat ta"
  shows "90 \<le> calculateTotalRisk p c ta"
  unfolding calculateTotalRisk_int Let_def using assms
  by (simp only: if_True if_False simp_thms known_floor)

lemma floorWhen_mono: "fst s \<le> fst (floorWhen cond factor boost s)"
  by (simp add: floorWhen_def)

lemma maliciousNameFloor_mono: "fst s \<le> fst (maliciousNameFloor f p s)"
  by (simp add: maliciousNameFloor_def)

lemma moddedNameFloor_mono: "fst s \<le> fst (moddedNameFloor f p s)"
  by (simp add: moddedNameFloor_def)

lemma permissionFloors_mono: "fst s \<le> fst (permissionFloors pa s)"
  unfolding permissionFloors_def Let_def
  by (auto intro: order_trans [OF floorWhen_mono floorWhen_mono] order_trans [OF floorWhen_mono order_trans [OF floorWhen_mono floorWhen_mono]])

lemma codePatternFloors_mono: "fst s \<le> fst (codePatternFloors ca s)"
  unfolding codePatternFloors_def Let_def
  by (auto intro: order_trans [OF floorWhen_mono floorWhen_mono])

lemma scoreBeforeBanking_ge_base:
  "calculateTotalRisk (pa_riskScore pa) (ca_riskScore ca) (Some ta) \<le> fst (scoreBeforeBanking fa mi pa ca ta)"
proof -
  let ?f = "toLowerCase (stringOrEmpty (fa_filename fa))"
  let ?p = "toLowerCase (packageName mi)"
  let ?s0 = "(calculateTotalRisk (pa_riskScore pa) (ca_riskScore ca) (Some ta), [] :: adjustment list)"
  have "fst ?s0 \<le> fst (maliciousNameFloor ?f ?p ?s0)" by (rule maliciousNameFloor_mono)
  also have "\<dots> \<le> fst (moddedNameFloor ?f ?p (maliciousNameFloor ?f ?p ?s0))" by (rule moddedNameFloor_mono)
  also have "\<dots> \<le> fst (permissionFloors pa (moddedNameFloor ?f ?p (maliciousNameFloor ?f ?p ?s0)))"
    by (rule permissionFloors_mono)
  also have "\<dots> \<le> fst (codePatternFloors ca (permissionFloors pa (moddedNameFloor ?f ?p (maliciousNameFloor ?f ?p ?s0))))"
    by (rule codePatternFloors_mono)
  finally show ?thesis by (simp add: scoreBeforeBanking_def Let_def)
qed

lemma bankingReduction_keeps: "60 \<le> fst s \<Longrightarrow> bankingReduction f p s = s"
  by (simp add: bankingReduction_def)

lemma signatureReduction_keeps: "50 \<le> fst s \<Longrightarrow> signatureReduction mi s = s"
  by (simp add: signatureReduction_def)

lemma noSignalsCap_known: "isKnownThreat ta \<Longrightarrow> noSignalsCap pa ca ta s = s"
  by (simp add: noSignalsCap_def)

lemma lowSignalsGuard_known: "isKnownThreat ta \<Longrightarrow> lowSignalsGuard pa ca ta s = s"
  by (simp add: lowSignalsGuard_def)

lemma finalScoring_known:
  assumes "isKnownThreat ta"
  shows "90 \<le> fst (finalScoring fa mi pa ca ta)"
proof -
  have "knownThreat (Some ta)" using assms by (simp add: knownThreat_def)
  then have "90 \<le> calculateTotalRisk (pa_riskScore pa) (ca_riskScore ca) (Some ta)"
    by (rule calculateTotalRisk_known)
  then have ge: "90 \<le> fst (scoreBeforeBanking fa mi pa ca ta)"
    using scoreBeforeBanking_ge_base [of pa ca ta fa mi] by linarith
  then have "contextualAdjustments fa mi pa ca ta = scoreBeforeBanking fa mi pa ca ta"
    by (simp add: contextualAdjustments_def bankingReduction_keeps signatureReduction_keeps)
  then show ?thesis
    using ge assms
    by (simp add: finalScoring_def Let_def noSignalsCap_known lowSignalsGuard_known)
qed

lemma checkThreatDatabase_hash:
  assumes "threats (fa_hash fa) \<noteq> None
           \<or> (truthy (fa_hashSha1 fa) \<and> threats (fa_hashSha1 fa) \<noteq> None)"
  shows "isKnownThreat (checkThreatDatabase threats fa mi)"
  using assms
  by (auto simp: checkThreatDatabase_def lookupThreat_def Let_def split: option.splits)

text \<open>
  C4. For every file whose digest is a key of the threat database (the SHA-256 digest, or
  the SHA-1 digest that \<open>checkThreatDatabase\<close> tries next), the verdict that
  \<open>generateFinalResult\<close> builds from the lookup has a risk score of at least 90, whatever
  the sub-scores, and whatever the names, signatures and matched permissions and patterns
  that drive the later adjustments.
\<close>

theorem known_threat_score:
  assumes "threats (fa_hash fa) \<noteq> None
           \<or> (truthy (fa_hashSha1 fa) \<and> threats (fa_hashSha1 fa) \<noteq> None)"
  shows "90 \<le> fr_riskScore (generateFinalResult fa mi pa ca (checkThreatDatabase threats fa mi))"
  using finalScoring_known [OF checkThreatDatabase_hash [OF assms]]
  by (simp add: generateFinalResult_def Let_def)

theorem known_threat_score_witness:
  "90 \<le> fr_riskScore (generateFinalResult exampleFile unknownManifest minimalPermissions cleanCode
                          (checkThreatDatabase exampleThreats exampleFile unknownManifest))"
  using known_threat_score [where threats = exampleThreats and fa = exampleFile and mi = unknownManifest
          and pa = minimalPermissions and ca = cleanCode]
  by (simp add: exampleFile_def exampleThreats_def)

lemma lowSignalsGuard_caps:
  "pa_riskScore pa < 25 \<Longrightarrow> ca_riskScore ca < 25 \<Longrightarrow> \<not> isKnownThreat ta \<Longrightarrow>
     fst (lowSignalsGuard pa ca ta s) \<le> 20"
  by (simp add: lowSignalsGuard_def)

text \<open>
  C10. Whenever the permission sub-score is below 25, the code sub-score is below 25 and the
  threat lookup did not match, the final risk score of \<open>generateFinalResult\<close> is at most
  20, also when an earlier floor (malicious or modded name, permission or pattern counts)
  had raised the running total above 20.
\<close>

theorem low_signals_cap:
  assumes "pa_riskScore pa < 25" and "ca_riskScore ca < 25" and "\<not> isKnownThreat ta"
  shows "fr_riskScore (generateFinalResult fa mi pa ca ta) \<le> 20"
  using lowSignalsGuard_caps [OF assms, of "noSignalsCap pa ca ta (contextualAdjustments fa mi pa ca ta)"]
  by (simp add: generateFinalResult_def finalScoring_def Let_def min_le_iff_disj)

lemma toLowerCase_examples:
  "toLowerCase ''com.trojan.app'' = ''com.trojan.app''"
  "toLowerCase ''com.example.bank'' = ''com.example.bank''"
  "toLowerCase ''com.example.wallet'' = ''com.example.wallet''"
  "toLowerCase [] = []"
  by (simp_all add: toLowerCase_def toLowerChar_def)

lemma trojan_words:
  "includesAny ''com.trojan.app'' maliciousWords"
  "\<not> includesAny ''com.trojan.app'' moddedWords"
  "\<not> includesAny [] maliciousWords"
  "\<not> includesAny [] moddedWords"
  by (simp_all add: includesAny_def maliciousWords_def moddedWords_def)

lemma trojan_before_banking:
  "fst (scoreBeforeBanking exampleFile trojanManifest (analyzePermissions []) cleanCode noThreat) = 80"
  by (simp add: scoreBeforeBanking_def Let_def exampleFile_def trojanManifest_def stringOrEmpty_def
        toLowerCase_examples trojan_words maliciousNameFloor_def moddedNameFloor_def
        permissionFloors_def codePatternFloors_def cleanCode_def analyzePermissions_def
        calculatePermissionRisk_def noThreat_def calculateTotalRisk_int knownThreat_def)

theorem low_signals_cap_witness:
  "fst (scoreBeforeBanking exampleFile trojanManifest (analyzePermissions []) cleanCode noThreat) = 80
   \<and> fr_riskScore (generateFinalResult exampleFile trojanManifest (analyzePermissions []) cleanCode noThreat) \<le> 20"
  using low_signals_cap [of "analyzePermissions []" cleanCode noThreat exampleFile trojanManifest]
        trojan_before_banking
  by (simp add: analyzePermissions_def calculatePermissionRisk_def cleanCode_def noThreat_def)

section \<open>Properties of the threat database\<close>

lemma lookupThreat_hash_first: "threats h = Some t \<Longrightarrow> lookupThreat threats h p = Some t"
  by (auto simp: lookupThreat_def)

lemma lookupThreat_package: "threats h = None \<Longrightarrow> truthy p \<Longrightarrow> lookupThreat threats h p = threats p"
  by (cases "threats p") (auto simp: lookupThreat_def dom_def)

lemma lookupThreat_absent: "threats h = None \<Longrightarrow> threats p = None \<Longrightarrow> lookupThreat threats h p = None"
  by (auto simp: lookupThreat_def)

lemma stampThreat_keys:
  "t_hash (stampThreat r now today) = t_hash r" "t_packageName (stampThreat r now today) = t_packageName r"
  by (simp_all add: stampThreat_def Let_def)

lemma addThreat_map:
  assumes "truthy (t_hash r)" and "truthy (t_packageName r)"
  shows "fst (addThreat threats r now today werr) =
           threats(t_hash r \<mapsto> stampThreat r now today, t_packageName r \<mapsto> stampThreat r now today)"
  using assms by (simp add: addThreat_def Let_def stampThreat_keys split: option.splits)

text \<open>
  C9. \<open>lookupThreat\<close> returns the record under the hash key when there is one, whatever the
  package name; otherwise the record under the package-name key; and the null result, which
  is not an error, when neither key is present. For every record with both a hash and a
  package name, after \<open>addThreat\<close> (also when writing the file fails) a lookup by its hash
  and a lookup by its package name with a hash that is no key both return the same stored
  record: the record given, with the id and dates \<open>addThreat\<close> assigns.
\<close>

theorem threat_lookup_contract:
  "(threats h = Some t \<longrightarrow> lookupThreat threats h p = Some t)
   \<and> (threats h = None \<longrightarrow> truthy p \<longrightarrow> lookupThreat threats h p = threats p)
   \<and> (threats h = None \<longrightarrow> threats p = None \<longrightarrow> lookupThreat threats h p = None)
   \<and> (truthy (t_hash r) \<longrightarrow> truthy (t_packageName r) \<longrightarrow>
        (let threats' = fst (addThreat threats r now today werr);
             stored = stampThreat r now today
         in lookupThreat threats' (t_hash r) q = Some stored
            \<and> (threats' h' = None \<longrightarrow> lookupThreat threats' h' (t_packageName r) = Some stored)
            \<and> (werr = None \<longrightarrow> snd (addThreat threats r now today werr) = Inr stored)
            \<and> t_hash stored = t_hash r \<and> t_packageName stored = t_packageName r))"
proof (intro conjI impI)
  assume h: "truthy (t_hash r)" and p: "truthy (t_packageName r)"
  let ?stored = "stampThreat r now today"
  let ?m = "fst (addThreat threats r now today werr)"
  have m: "?m = threats(t_hash r \<mapsto> ?stored, t_packageName r \<mapsto> ?stored)"
    by (rule addThreat_map [OF h p])
  have byHash: "lookupThreat ?m (t_hash r) q = Some ?stored"
    by (rule lookupThreat_hash_first) (simp add: m)
  have byPkg: "?m h' = None \<longrightarrow> lookupThreat ?m h' (t_packageName r) = Some ?stored"
  proof
    assume "?m h' = None"
    then have "lookupThreat ?m h' (t_packageName r) = ?m (t_packageName r)"
      using p by (rule lookupThreat_package)
    then show "lookupThreat ?m h' (t_packageName r) = Some ?stored" by (simp add: m)
  qed
  have res: "werr = None \<longrightarrow> snd (addThreat threats r now today werr) = Inr ?stored"
    using h by (simp add: addThreat_def Let_def)
  show "let threats' = ?m; stored = ?stored
        in lookupThreat threats' (t_hash r) q = Some stored
            \<and> (threats' h' = None \<longrightarrow> lookupThreat threats' h' (t_packageName r) = Some stored)
            \<and> (werr = None \<longrightarrow> snd (addThreat threats r now today werr) = Inr stored)
            \<and> t_hash stored = t_hash r \<and> t_packageName stored = t_packageName r"
    unfolding Let_def using byHash byPkg res by (simp add: stampThreat_keys)
qed (simp_all add: lookupThreat_hash_first lookupThreat_package lookupThreat_absent)

theorem threat_lookup_contract_witness:
  "lookupThreat (fst (addThreat Map.empty exampleThreat 0 ''2024-02-02'' None)) (Str ''e3b0c442'') Undefined
      = Some (stampThreat exampleThreat 0 ''2024-02-02'')
   \<and> lookupThreat (fst (addThreat Map.empty exampleThreat 0 ''2024-02-02'' None)) Null (Str ''com.fakebanking.app'')
      = Some (stampThreat exampleThreat 0 ''2024-02-02'')
   \<and> lookupThreat Map.empty Null (Str ''com.fakebanking.app'') = None"
proof -
  have h: "truthy (t_hash exampleThreat)" and p: "truthy (t_packageName exampleThreat)"
    by (simp_all add: exampleThreat_def truthy_def)
  have none: "fst (addThreat Map.empty exampleThreat 0 ''2024-02-02'' None) Null = None"
    by (simp add: addThreat_def Let_def stampThreat_def exampleThreat_def truthy_def)
  show ?thesis
    using threat_lookup_contract [of Map.empty Null exampleThreat "Str ''com.fakebanking.app''"
             exampleThreat 0 "''2024-02-02''" None Undefined Null] h p none
    by (simp add: Let_def exampleThreat_def)
qed

section \<open>The banking-name reduction\<close>

lemma floorWhen_boosts: "list_all isBoost (snd s) \<Longrightarrow> list_all isBoost (snd (floorWhen cond factor boost s))"
  by (simp add: floorWhen_def)

lemma scoreBeforeBanking_boosts: "list_all isBoost (snd (scoreBeforeBanking fa mi pa ca ta))"
  by (simp add: scoreBeforeBanking_def Let_def maliciousNameFloor_def moddedNameFloor_def
        permissionFloors_def codePatternFloors_def floorWhen_boosts)

lemma banking_not_logged_before:
  "Reduction ''Legitimate banking app indicators'' 15 \<notin> set (snd (scoreBeforeBanking fa mi pa ca ta))"
proof
  assume "Reduction ''Legitimate banking app indicators'' 15 \<in> set (snd (scoreBeforeBanking fa mi pa ca ta))"
  moreover have "\<forall>a \<in> set (snd (scoreBeforeBanking fa mi pa ca ta)). isBoost a"
    using scoreBeforeBanking_boosts [of fa mi pa ca ta] by (simp add: list_all_iff)
  ultimately have "isBoost (Reduction ''Legitimate banking app indicators'' 15)"
    by blast
  then show False by simp
qed

lemma later_passes_keep:
  "Reduction ''Legitimate banking app indicators'' 15 \<in> set (snd (signatureReduction mi s))
     \<longleftrightarrow> Reduction ''Legitimate banking app indicators'' 15 \<in> set (snd s)"
  "Reduction ''Legitimate banking app indicators'' 15 \<in> set (snd (noSignalsCap pa ca ta s))
     \<longleftrightarrow> Reduction ''Legitimate banking app indicators'' 15 \<in> set (snd s)"
  "Reduction ''Legitimate banking app indicators'' 15 \<in> set (snd (lowSignalsGuard pa ca ta s))
     \<longleftrightarrow> Reduction ''Legitimate banking app indicators'' 15 \<in> set (snd s)"
  by (simp_all add: signatureReduction_def noSignalsCap_def lowSignalsGuard_def)

lemma final_adjustments_banking:
  "Reduction ''Legitimate banking app indicators'' 15
       \<in> set (rb_adjustments (fr_riskBreakdown (generateFinalResult fa mi pa ca ta)))
   \<longleftrightarrow> Reduction ''Legitimate banking app indicators'' 15
       \<in> set (snd (bankingReduction (toLowerCase (stringOrEmpty (fa_filename fa)))
                      (toLowerCase (packageName mi)) (scoreBeforeBanking fa mi pa ca ta)))"
  by (simp add: generateFinalResult_def finalScoring_def contextualAdjustments_def Let_def later_passes_keep)

lemma fst_floorWhen: "fst (floorWhen cond factor boost s) = (if cond then max (fst s) boost else fst s)"
  by (simp add: floorWhen_def)

lemma foldl_max_optional:
  "foldl max a ((if cond then [b] else []) @ rest) = foldl max (if cond then max a b else a) rest"
  by simp

lemma permissionFloors_fst:
  "fst (permissionFloors pa s) =
     foldl max (fst s)
       ((if length (filter (\<lambda>x. x \<in> set aggHighRiskPerms) (pa_suspicious pa)) > 0
         then [min (30 + int (length (filter (\<lambda>x. x \<in> set aggHighRiskPerms) (pa_suspicious pa))) * 10) 60]
         else [])
        @ (if length (filter (\<lambda>x. x \<in> set aggMediumRiskPerms) (pa_suspicious pa)) \<ge> 2
           then [min (25 + int (length (filter (\<lambda>x. x \<in> set aggMediumRiskPerms) (pa_suspicious pa))) * 5) 45]
           else [])
        @ (if length (filter (\<lambda>x. x \<in> set aggLowRiskPerms) (pa_suspicious pa)) \<ge> 3
           then [min (20 + int (length (filter (\<lambda>x. x \<in> set aggLowRiskPerms) (pa_suspicious pa))) * 3) 35]
           else [])
        @ [])"
proof (cases "pa_suspicious pa = []")
  case True
  then show ?thesis by (simp add: permissionFloors_def)
next
  case False
  then have "length (pa_suspicious pa) > 0" by simp
  then show ?thesis
    unfolding permissionFloors_def Let_def
    by (simp only: if_True fst_floorWhen foldl_max_optional foldl_Nil)
qed

lemma codePatternFloors_fst:
  "fst (codePatternFloors ca s) =
     foldl max (fst s)
       ((if length (filter aggHighRiskPattern (ca_suspiciousPatterns ca)) > 0
         then [min (35 + int (length (filter aggHighRiskPattern (ca_suspiciousPatterns ca))) * 8) 60]
         else [])
        @ (if length (filter aggMediumRiskPattern (ca_suspiciousPatterns ca)) \<ge> 2
           then [min (25 + int (length (filter aggMediumRiskPattern (ca_suspiciousPatterns ca))) * 5) 45]
           else [])
        @ [])"
proof (cases "ca_suspiciousPatterns ca = []")
  case True
  then show ?thesis by (simp add: codePatternFloors_def)
next
  case False
  then have "length (ca_suspiciousPatterns ca) > 0" by simp
  then show ?thesis
    unfolding codePatternFloors_def Let_def
    by (simp only: if_True fst_floorWhen foldl_max_optional foldl_Nil)
qed

lemma nameFloors_fst:
  "fst (maliciousNameFloor f p s) =
     foldl max (fst s) ((if includesAny f maliciousWords \<or> includesAny p maliciousWords then [80] else []) @ [])"
  "fst (moddedNameFloor f p s) =
     foldl max (fst s) ((if includesAny f moddedWords \<or> includesAny p moddedWords then [55] else []) @ [])"
  by (simp_all add: maliciousNameFloor_def moddedNameFloor_def)

lemma scoreBeforeBanking_fst:
  "fst (scoreBeforeBanking fa mi pa ca ta) =
     foldl max (calculateTotalRisk (pa_riskScore pa) (ca_riskScore ca) (Some ta))
       ((if includesAny (toLowerCase (stringOrEmpty (fa_filename fa))) maliciousWords
            \<or> includesAny (toLowerCase (packageName mi)) maliciousWords then [80] else [])
        @ (if includesAny (toLowerCase (stringOrEmpty (fa_filename fa))) moddedWords
              \<or> includesAny (toLowerCase (packageName mi)) moddedWords then [55] else [])
        @ (if length (filter (\<lambda>x. x \<in> set aggHighRiskPerms) (pa_suspicious pa)) > 0
           then [min (30 + int (length (filter (\<lambda>x. x \<in> set aggHighRiskPerms) (pa_suspicious pa))) * 10) 60]
           else [])
        @ (if length (filter (\<lambda>x. x \<in> set aggMediumRiskPerms) (pa_suspicious pa)) \<ge> 2
           then [min (25 + int (length (filter (\<lambda>x. x \<in> set aggMediumRiskPerms) (pa_suspicious pa))) * 5) 45]
           else [])
        @ (if length (filter (\<lambda>x. x \<in> set aggLowRiskPerms) (pa_suspicious pa)) \<ge> 3
           then [min (20 + int (length (filter (\<lambda>x. x \<in> set aggLowRiskPerms) (pa_suspicious pa))) * 3) 35]
           else [])
        @ (if length (filter aggHighRiskPattern (ca_suspiciousPatterns ca)) > 0
           then [min (35 + int (length (filter aggHighRiskPattern (ca_suspiciousPatterns ca))) * 8) 60]
           else [])
        @ (if length (filter aggMediumRiskPattern (ca_suspiciousPatterns ca)) \<ge> 2
           then [min (25 + int (length (filter aggMediumRiskPattern (ca_suspiciousPatterns ca))) * 5) 45]
           else []))"
  unfolding scoreBeforeBanking_def Let_def codePatternFloors_fst permissionFloors_fst nameFloors_fst
  by (simp only: foldl_append [symmetric] append_Nil2 fst_conv append_assoc)

lemma finalScoring_fst:
  "fst (finalScoring fa mi pa ca ta) =
     max 0 (min (fst (lowSignalsGuard pa ca ta (noSignalsCap pa ca ta
        (signatureReduction mi
           (bankingReduction (toLowerCase (stringOrEmpty (fa_filename fa))) (toLowerCase (packageName mi))
              (scoreBeforeBanking fa mi pa ca ta)))))) 100)"
  by (simp add: finalScoring_def contextualAdjustments_def Let_def)

lemma later_passes_fst:
  "fst (bankingReduction f p s) =
     (if (includesAny p bankingWords \<or> includesAny f bankingWords) \<and> fst s < 60
      then max (fst s - 15) 0 else fst s)"
  "fst (signatureReduction mi s) =
     (if (case signatures mi of None \<Rightarrow> False
          | Some sigs \<Rightarrow> list_ex (\<lambda>sig. includesStr sig ''google'' \<or> includesStr sig ''android'') sigs)
         \<and> fst s < 50
      then max (fst s - 10) 0 else fst s)"
  "fst (noSignalsCap pa ca ta s) =
     (if pa_suspicious pa = [] \<and> ca_suspiciousPatterns ca = [] \<and> \<not> isKnownThreat ta
      then min (fst s) 20 else fst s)"
  "fst (lowSignalsGuard pa ca ta s) =
     (if pa_riskScore pa < 25 \<and> ca_riskScore ca < 25 \<and> \<not> isKnownThreat ta
      then min (fst s) 20 else fst s)"
  by (simp_all add: bankingReduction_def signatureReduction_def noSignalsCap_def lowSignalsGuard_def Let_def)

text \<open>
  C8 (amended). For every analysis whose file name or package name contains one of the
  banking words (bank, finance, payment, wallet, credit): let \<open>s\<close> be the aggregate score
  at that point, which is the largest of the base score and the floors that apply (80 for
  a malicious name, 55 for a modded name, and the floors of the permission and pattern
  counts). \<open>generateFinalResult\<close> logs the adjustment named ``Legitimate banking app
  indicators'' with a reduction of 15 exactly when \<open>s\<close> is below 60; the score it goes on
  with is then the larger of 0 and \<open>s\<close> less 15, and \<open>s\<close> itself at 60 or more; and the
  risk score of the verdict is what the passes that follow (signature reduction, the two
  caps at 20, the clamp to 0..100) make of that score.
\<close>

theorem banking_reduction_threshold:
  assumes "f = toLowerCase (stringOrEmpty (fa_filename fa))"
    and "p = toLowerCase (packageName mi)"
    and "includesAny p bankingWords \<or> includesAny f bankingWords"
    and "s = foldl max (calculateTotalRisk (pa_riskScore pa) (ca_riskScore ca) (Some ta))
           ((if includesAny f maliciousWords \<or> includesAny p maliciousWords then [80] else [])
            @ (if includesAny f moddedWords \<or> includesAny p moddedWords then [55] else [])
            @ (if length (filter (\<lambda>x. x \<in> set aggHighRiskPerms) (pa_suspicious pa)) > 0
               then [min (30 + int (length (filter (\<lambda>x. x \<in> set aggHighRiskPerms) (pa_suspicious pa))) * 10) 60]
               else [])
            @ (if length (filter (\<lambda>x. x \<in> set aggMediumRiskPerms) (pa_suspicious pa)) \<ge> 2
               then [min (25 + int (length (filter (\<lambda>x. x \<in> set aggMediumRiskPerms) (pa_suspicious pa))) * 5) 45]
               else [])
            @ (if length (filter (\<lambda>x. x \<in> set aggLowRiskPerms) (pa_suspicious pa)) \<ge> 3
               then [min (20 + int (length (filter (\<lambda>x. x \<in> set aggLowRiskPerms) (pa_suspicious pa))) * 3) 35]
               else [])
            @ (if length (filter aggHighRiskPattern (ca_suspiciousPatterns ca)) > 0
               then [min (35 + int (length (filter aggHighRiskPattern (ca_suspiciousPatterns ca))) * 8) 60]
               else [])
            @ (if length (filter aggMediumRiskPattern (ca_suspiciousPatterns ca)) \<ge> 2
               then [min (25 + int (length (filter aggMediumRiskPattern (ca_suspiciousPatterns ca))) * 5) 45]
               else []))"
    and "reduced = (if s < 60 then max (s - 15) 0 else s)"
    and "afterSignature =
           (if (case signatures mi of None \<Rightarrow> False
                | Some sigs \<Rightarrow> list_ex (\<lambda>sig. includesStr sig ''google'' \<or> includesStr sig ''android'') sigs)
               \<and> reduced < 50
            then max (reduced - 10) 0 else reduced)"
    and "afterNoSignals =
           (if pa_suspicious pa = [] \<and> ca_suspiciousPatterns ca = [] \<and> \<not> isKnownThreat ta
            then min afterSignature 20 else afterSignature)"
    and "afterGuard =
           (if pa_riskScore pa < 25 \<and> ca_riskScore ca < 25 \<and> \<not> isKnownThreat ta
            then min afterNoSignals 20 else afterNoSignals)"
  shows "(Reduction ''Legitimate banking app indicators'' 15
            \<in> set (rb_adjustments (fr_riskBreakdown (generateFinalResult fa mi pa ca ta)))
          \<longleftrightarrow> s < 60)
       \<and> fr_riskScore (generateFinalResult fa mi pa ca ta) = max 0 (min afterGuard 100)
       \<and> rb_finalScore (fr_riskBreakdown (generateFinalResult fa mi pa ca ta)) = max 0 (min afterGuard 100)"
proof -
  have s: "s = fst (scoreBeforeBanking fa mi pa ca ta)"
    unfolding assms(4) assms(1) assms(2) by (rule scoreBeforeBanking_fst [symmetric])
  have ind: "includesAny (toLowerCase (packageName mi)) bankingWords
             \<or> includesAny (toLowerCase (stringOrEmpty (fa_filename fa))) bankingWords"
    using assms(3) unfolding assms(1) assms(2) .
  have logged: "Reduction ''Legitimate banking app indicators'' 15
            \<in> set (rb_adjustments (fr_riskBreakdown (generateFinalResult fa mi pa ca ta)))
          \<longleftrightarrow> s < 60"
    unfolding final_adjustments_banking s
    using ind banking_not_logged_before [of fa mi pa ca ta]
    by (simp add: bankingReduction_def)
  have red: "fst (bankingReduction (toLowerCase (stringOrEmpty (fa_filename fa))) (toLowerCase (packageName mi))
                   (scoreBeforeBanking fa mi pa ca ta)) = reduced"
    unfolding later_passes_fst(1) assms(5) s using ind by simp
  have score: "fst (finalScoring fa mi pa ca ta) = max 0 (min afterGuard 100)"
    unfolding finalScoring_fst later_passes_fst(4) later_passes_fst(3) later_passes_fst(2) red
              assms(6) [symmetric] assms(7) [symmetric] assms(8) [symmetric] ..
  show ?thesis
    using logged score by (simp add: generateFinalResult_def Let_def)
qed

lemma bank_words:
  "includesAny ''com.example.bank'' bankingWords"
  "\<not> includesAny ''com.example.bank'' maliciousWords"
  "\<not> includesAny ''com.example.bank'' moddedWords"
  "\<not> includesAny [] maliciousWords"
  "\<not> includesAny [] moddedWords"
  by (simp_all add: includesAny_def maliciousWords_def moddedWords_def bankingWords_def)

lemma bank_permissions:
  "analyzePermissions (permissions bankManifest) =
     \<lparr> pa_total = 2,
       pa_suspicious = [''android.permission.SYSTEM_ALERT_WINDOW'', ''android.permission.BIND_ACCESSIBILITY_SERVICE''],
       pa_banking = [], pa_riskScore = 60 \<rparr>"
  by (simp add: analyzePermissions_def bankManifest_def suspiciousPermissions_def bankingPermissions_def
        calculatePermissionRisk_def permissionStep_def highRiskPerms_def)

lemma showNat_2: "showNat 2 = ''2''" "showNat (Suc (Suc 0)) = ''2''"
  by (subst showNat.simps, simp add: char_of_eq_iff)+

lemma bank_before_banking:
  "scoreBeforeBanking exampleFile bankManifest (analyzePermissions (permissions bankManifest)) cleanCode noThreat
     = (70, [Boost ''High-risk permissions (2)'' 50])"
  unfolding bank_permissions
  by (simp add: scoreBeforeBanking_def Let_def exampleFile_def bankManifest_def stringOrEmpty_def
        toLowerCase_examples bank_words maliciousNameFloor_def moddedNameFloor_def
        permissionFloors_def aggHighRiskPerms_def aggMediumRiskPerms_def aggLowRiskPerms_def showNat_2 floorWhen_def codePatternFloors_def cleanCode_def
        noThreat_def calculateTotalRisk_int knownThreat_def)

lemma bank_final:
  "finalScoring exampleFile bankManifest (analyzePermissions (permissions bankManifest)) cleanCode noThreat
     = (70, [Boost ''High-risk permissions (2)'' 50])"
  unfolding finalScoring_def contextualAdjustments_def bank_before_banking
  unfolding bank_permissions
  by (simp add: Let_def bankingReduction_def signatureReduction_def bankManifest_def
        noSignalsCap_def lowSignalsGuard_def)

text \<open>
  The claim as first stated, with the threshold 80, fails: a total of 70 is kept.
\<close>

theorem banking_reduction_counterexample:
  "\<not> (includesAny (toLowerCase (packageName bankManifest)) bankingWords
       \<and> fst (scoreBeforeBanking exampleFile bankManifest
                 (analyzePermissions (permissions bankManifest)) cleanCode noThreat) < 80
       \<longrightarrow> Reduction ''Legitimate banking app indicators'' 15
             \<in> set (rb_adjustments (fr_riskBreakdown
                   (generateFinalResult exampleFile bankManifest
                      (analyzePermissions (permissions bankManifest)) cleanCode noThreat))))
   \<and> fr_riskScore (generateFinalResult exampleFile bankManifest
                      (analyzePermissions (permissions bankManifest)) cleanCode noThreat) = 70"
  unfolding generateFinalResult_def Let_def bank_final bank_before_banking
  by (simp add: bankManifest_def toLowerCase_examples bank_words)

lemma wallet_words:
  "includesAny ''com.example.wallet'' bankingWords"
  "\<not> includesAny ''com.example.wallet'' maliciousWords"
  "\<not> includesAny ''com.example.wallet'' moddedWords"
  by (simp_all add: includesAny_def maliciousWords_def moddedWords_def bankingWords_def)

lemma wallet_permissions:
  "analyzePermissions (permissions walletManifest) =
     \<lparr> pa_total = 1, pa_suspicious = [''android.permission.SYSTEM_ALERT_WINDOW''],
       pa_banking = [], pa_riskScore = 35 \<rparr>"
  by (simp add: analyzePermissions_def walletManifest_def suspiciousPermissions_def bankingPermissions_def
        calculatePermissionRisk_def permissionStep_def highRiskPerms_def lowRiskPerms_def)

lemma wallet_base: "calculateTotalRisk 35 0 (Some noThreat) = 19"
  by (simp add: calculateTotalRisk_int knownThreat_def noThreat_def)

theorem banking_reduction_threshold_witness:
  "Reduction ''Legitimate banking app indicators'' 15
      \<in> set (rb_adjustments (fr_riskBreakdown
             (generateFinalResult exampleFile walletManifest
                (analyzePermissions (permissions walletManifest)) cleanCode noThreat)))
   \<and> fr_riskScore (generateFinalResult exampleFile walletManifest
                      (analyzePermissions (permissions walletManifest)) cleanCode noThreat) = 25"
proof -
  have f: "[] = toLowerCase (stringOrEmpty (fa_filename exampleFile))"
    by (simp add: exampleFile_def stringOrEmpty_def toLowerCase_examples)
  have p: "''com.example.wallet'' = toLowerCase (packageName walletManifest)"
    by (simp add: walletManifest_def toLowerCase_examples)
  have ind: "includesAny ''com.example.wallet'' bankingWords \<or> includesAny [] bankingWords"
    by (simp add: wallet_words)
  have s: "(40::int) = foldl max (calculateTotalRisk (pa_riskScore (analyzePermissions (permissions walletManifest)))
                              (ca_riskScore cleanCode) (Some noThreat))
           ((if includesAny [] maliciousWords \<or> includesAny ''com.example.wallet'' maliciousWords then [80] else [])
            @ (if includesAny [] moddedWords \<or> includesAny ''com.example.wallet'' moddedWords then [55] else [])
            @ (if length (filter (\<lambda>x. x \<in> set aggHighRiskPerms) (pa_suspicious (analyzePermissions (permissions walletManifest)))) > 0
               then [min (30 + int (length (filter (\<lambda>x. x \<in> set aggHighRiskPerms) (pa_suspicious (analyzePermissions (permissions walletManifest))))) * 10) 60]
               else [])
            @ (if length (filter (\<lambda>x. x \<in> set aggMediumRiskPerms) (pa_suspicious (analyzePermissions (permissions walletManifest)))) \<ge> 2
               then [min (25 + int (length (filter (\<lambda>x. x \<in> set aggMediumRiskPerms) (pa_suspicious (analyzePermissions (permissions walletManifest))))) * 5) 45]
               else [])
            @ (if length (filter (\<lambda>x. x \<in> set aggLowRiskPerms) (pa_suspicious (analyzePermissions (permissions walletManifest)))) \<ge> 3
               then [min (20 + int (length (filter (\<lambda>x. x \<in> set aggLowRiskPerms) (pa_suspicious (analyzePermissions (permissions walletManifest))))) * 3) 35]
               else [])
            @ (if length (filter aggHighRiskPattern (ca_suspiciousPatterns cleanCode)) > 0
               then [min (35 + int (length (filter aggHighRiskPattern (ca_suspiciousPatterns cleanCode))) * 8) 60]
               else [])
            @ (if length (filter aggMediumRiskPattern (ca_suspiciousPatterns cleanCode)) \<ge> 2
               then [min (25 + int (length (filter aggMediumRiskPattern (ca_suspiciousPatterns cleanCode))) * 5) 45]
               else []))"
    unfolding wallet_permissions
    by (simp add: aggHighRiskPerms_def aggMediumRiskPerms_def aggLowRiskPerms_def wallet_base cleanCode_def
          wallet_words bank_words)
  have reduced: "(25::int) = (if (40::int) < 60 then max (40 - 15) 0 else 40)" by simp
  have sig: "(25::int) =
           (if (case signatures walletManifest of None \<Rightarrow> False
                | Some sigs \<Rightarrow> list_ex (\<lambda>sig. includesStr sig ''google'' \<or> includesStr sig ''android'') sigs)
               \<and> (25::int) < 50
            then max (25 - 10) 0 else 25)"
    by (simp add: walletManifest_def)
  have nos: "(25::int) =
           (if pa_suspicious (analyzePermissions (permissions walletManifest)) = []
                \<and> ca_suspiciousPatterns cleanCode = [] \<and> \<not> isKnownThreat noThreat
            then min (25::int) 20 else 25)"
    unfolding wallet_permissions by simp
  have guard: "(25::int) =
           (if pa_riskScore (analyzePermissions (permissions walletManifest)) < 25
                \<and> ca_riskScore cleanCode < 25 \<and> \<not> isKnownThreat noThreat
            then min (25::int) 20 else 25)"
    unfolding wallet_permissions by simp
  show ?thesis
    using banking_reduction_threshold [OF f p ind s reduced sig nos guard] by simp
qed

section \<open>Outcome of a run\<close>

lemma updateProgress_ok:
  "hasSteps tr \<Longrightarrow> updateProgress p s d tr = (Inr (), progressWrite p s d tr)"
  by (auto simp: hasSteps_def updateProgress_def progressWrite_def)

lemma progressWrite_hasSteps: "hasSteps tr \<Longrightarrow> hasSteps (progressWrite p s d tr)"
  by (auto simp: hasSteps_def progressWrite_def)

lemma markFailed_hasSteps: "hasSteps tr \<Longrightarrow> hasSteps (markFailed m tr)"
  by (simp add: hasSteps_def markFailed_def)

lemma awaiting_hasSteps: "hasSteps tr \<Longrightarrow> hasSteps (awaiting timer point tr)"
  by (simp add: awaiting_def timeoutHandler_def markFailed_hasSteps updateProgress_ok progressWrite_hasSteps)

lemmas steps_simps = updateProgress_ok progressWrite_hasSteps markFailed_hasSteps awaiting_hasSteps

lemma extractionStages_hasSteps:
  assumes "hasSteps tr"
  shows "fst (extractionStages env tr) = assessmentsOf env \<and> hasSteps (snd (extractionStages env tr))"
  using assms
  by (simp add: extractionStages_def Let_def steps_simps assessmentsOf_def stageError_def
           split: option.splits sum.splits)

lemma last_storeResult: "last (storeResult res tr) = completedRecord res"
  by (simp add: storeResult_def completedRecord_def)

lemma last_markFailed:
  "j_status (last (markFailed m tr)) = Failed" "j_error (last (markFailed m tr)) = Some m"
  by (simp_all add: markFailed_def)

lemma finishMain_outcome:
  assumes "hasSteps tr" and "e_timer env \<noteq> Some DuringCleanup"
  shows "case (case e_threatError env of Some e \<Rightarrow> Some e | None \<Rightarrow> e_finalError env) of
           Some e \<Rightarrow> fst (finishMain env fa a tr) = Inl e \<and> hasSteps (snd (finishMain env fa a tr))
         | None \<Rightarrow> fst (finishMain env fa a tr) = Inr ()
                    \<and> last (snd (finishMain env fa a tr)) =
                        completedRecord (generateFinalResult fa (fst a) (fst (snd a)) (snd (snd a))
                           (checkThreatDatabase (e_threats env) fa (fst a)))"
  using assms
  by (simp add: finishMain_def steps_simps awaiting_def last_storeResult split: option.splits)

lemma mainPath_outcome:
  assumes "hasSteps tr" and "e_timer env \<noteq> Some DuringCleanup"
  shows "case stepError env of
           Some e \<Rightarrow> fst (mainPath env tr) = Inl e \<and> hasSteps (snd (mainPath env tr))
         | None \<Rightarrow> fst (mainPath env tr) = Inr ()
                    \<and> (\<exists>fa. e_file env = Inr fa \<and> last (snd (mainPath env tr)) =
                        completedRecord (generateFinalResult fa (fst (assessmentsOf env))
                           (fst (snd (assessmentsOf env))) (snd (snd (assessmentsOf env)))
                           (checkThreatDatabase (e_threats env) fa (fst (assessmentsOf env)))))"
proof (cases "e_file env")
  case (Inl e)
  then show ?thesis
    using assms by (simp add: mainPath_def Let_def steps_simps stepError_def)
next
  case (Inr fa)
  let ?t3 = "progressWrite 40 ''Extracting APK'' ''Extracting and parsing APK contents''
               (awaiting (e_timer env) DuringFileAnalysis
                  (progressWrite 20 ''File Analysis'' ''Examining file structure and integrity'' tr))"
  have h3: "hasSteps ?t3" using assms(1) by (simp add: steps_simps)
  have main: "mainPath env tr = finishMain env fa (assessmentsOf env) (snd (extractionStages env ?t3))"
    using assms(1) Inr extractionStages_hasSteps [OF h3, of env]
    by (simp add: mainPath_def Let_def steps_simps)
  have h4: "hasSteps (snd (extractionStages env ?t3))"
    using extractionStages_hasSteps [OF h3, of env] by simp
  show ?thesis
    using finishMain_outcome [OF h4 assms(2), of fa "assessmentsOf env"] Inr
    by (simp add: main stepError_def split: option.splits)
qed

lemma fallbackPath_outcome:
  assumes "hasSteps tr"
  shows "case e_finalErrorAgain env of
           Some e2 \<Rightarrow> j_status (last (fallbackPath env e tr)) = Failed
                      \<and> j_error (last (fallbackPath env e tr)) = Some e
         | None \<Rightarrow> (\<exists>fa ta. last (fallbackPath env e tr) =
                       completedRecord (generateFinalResult fa unknownManifest minimalPermissions
                                          (minimalCode e) ta))"
  using assms
  by (auto simp: fallbackPath_def Let_def steps_simps last_storeResult last_markFailed
           split: option.splits)

section \<open>Lifecycle of a job when the timer does not fire\<close>

lemma map_filter_snoc:
  "List.map_filter f (xs @ [x]) = List.map_filter f xs @ (case f x of None \<Rightarrow> [] | Some y \<Rightarrow> [y])"
  by (simp add: List.map_filter_def split: option.splits)

lemma runningUpTo_initial: "runningUpTo 0 [initialRecord]"
  by (simp add: runningUpTo_def hasSteps_def initialRecord_def List.map_filter_def)

lemma runningUpTo_mono: "runningUpTo b tr \<Longrightarrow> b \<le> b' \<Longrightarrow> runningUpTo b' tr"
  by (auto simp: runningUpTo_def list_all_iff)

lemma runningUpTo_hasSteps: "runningUpTo b tr \<Longrightarrow> hasSteps tr"
  by (simp add: runningUpTo_def)

lemma runningUpTo_last: "runningUpTo b tr \<Longrightarrow> j_status (last tr) = Processing"
  by (auto simp: runningUpTo_def list_all_iff)

lemma progressWrite_running:
  assumes "runningUpTo b tr" and "b \<le> p"
  shows "runningUpTo p (progressWrite p s d tr)"
proof -
  have st: "j_status (last tr) = Processing" using assms(1) by (rule runningUpTo_last)
  have le: "\<forall>q \<in> set (List.map_filter j_progress tr). q \<le> p"
    using assms by (auto simp: runningUpTo_def list_all_iff)
  show ?thesis
    using assms(1) st le progressWrite_hasSteps [of tr p s d]
    by (auto simp: runningUpTo_def progressWrite_def map_filter_snoc sorted_append list_all_iff hasSteps_def)
qed

lemma awaiting_idle: "awaiting None point tr = tr"
  by (simp add: awaiting_def)

lemma extractionStages_running:
  assumes "e_timer env = None" and "runningUpTo 40 tr"
  shows "runningUpTo 90 (snd (extractionStages env tr))"
proof -
  let ?t2 = "progressWrite 60 ''Manifest Analysis'' ''Analyzing Android manifest file'' tr"
  let ?t4 = "progressWrite 80 ''Permission Check'' ''Analyzing requested permissions'' ?t2"
  let ?t5 = "progressWrite 90 ''Code Analysis'' ''Checking for malicious code patterns'' ?t4"
  have r0: "runningUpTo 90 tr" using assms(2) by (rule runningUpTo_mono) simp
  have r2: "runningUpTo 60 ?t2" using assms(2) by (rule progressWrite_running) simp
  have r4: "runningUpTo 80 ?t4" using r2 by (rule progressWrite_running) simp
  have r5: "runningUpTo 90 ?t5" using r4 by (rule progressWrite_running) simp
  have r2': "runningUpTo 90 ?t2" using r2 by (rule runningUpTo_mono) simp
  have h: "hasSteps tr" "hasSteps ?t2" "hasSteps ?t4"
    using assms(2) r2 r4 by (simp_all add: runningUpTo_hasSteps)
  show ?thesis
    using r0 r2' r5 h
    by (simp add: extractionStages_def Let_def assms(1) awaiting_idle updateProgress_ok
             split: option.splits sum.splits)
qed

lemma finishMain_running:
  assumes "e_timer env = None" and "runningUpTo 90 tr"
  shows "(\<exists>e. fst (finishMain env fa a tr) = Inl e \<and> runningUpTo 100 (snd (finishMain env fa a tr)))
         \<or> (fst (finishMain env fa a tr) = Inr () \<and> endsOnce (snd (finishMain env fa a tr)))"
proof -
  let ?t1 = "progressWrite 95 ''Database Check'' ''Comparing with known threats'' tr"
  let ?t2 = "progressWrite 100 ''Finalizing'' ''Generating security report'' ?t1"
  have r1: "runningUpTo 95 ?t1" using assms(2) by (rule progressWrite_running) simp
  have r2: "runningUpTo 100 ?t2" using r1 by (rule progressWrite_running) simp
  have r1': "runningUpTo 100 ?t1" using r1 by (rule runningUpTo_mono) simp
  have h: "hasSteps tr" "hasSteps ?t1"
    using assms(2) r1 by (simp_all add: runningUpTo_hasSteps)
  have fin: "endsOnce (storeResult res ?t2)" for res
    unfolding endsOnce_def storeResult_def using r2 by (auto simp: isTerminal_def)
  show ?thesis
    using r1' r2 h fin
    by (simp add: finishMain_def assms(1) awaiting_idle updateProgress_ok split: option.splits)
qed

lemma mainPath_running:
  assumes "e_timer env = None" and "runningUpTo 5 tr"
  shows "(\<exists>e. fst (mainPath env tr) = Inl e \<and> runningUpTo 100 (snd (mainPath env tr)))
         \<or> (fst (mainPath env tr) = Inr () \<and> endsOnce (snd (mainPath env tr)))"
proof -
  let ?t1 = "progressWrite 20 ''File Analysis'' ''Examining file structure and integrity'' tr"
  let ?t3 = "progressWrite 40 ''Extracting APK'' ''Extracting and parsing APK contents'' ?t1"
  have r1: "runningUpTo 20 ?t1" using assms(2) by (rule progressWrite_running) simp
  have r3: "runningUpTo 40 ?t3" using r1 by (rule progressWrite_running) simp
  have r1': "runningUpTo 100 ?t1" using r1 by (rule runningUpTo_mono) simp
  have h: "hasSteps tr" "hasSteps ?t1"
    using assms(2) r1 by (simp_all add: runningUpTo_hasSteps)
  have r4: "runningUpTo 90 (snd (extractionStages env ?t3))"
    using assms(1) r3 by (rule extractionStages_running)
  show ?thesis
  proof (cases "e_file env")
    case (Inl e)
    then show ?thesis
      using r1' h by (simp add: mainPath_def Let_def assms(1) awaiting_idle updateProgress_ok)
  next
    case (Inr fa)
    have "mainPath env tr = finishMain env fa (fst (extractionStages env ?t3)) (snd (extractionStages env ?t3))"
      using Inr h by (simp add: mainPath_def Let_def assms(1) awaiting_idle updateProgress_ok)
    then show ?thesis
      using finishMain_running [OF assms(1) r4, of fa "fst (extractionStages env ?t3)"] by simp
  qed
qed

lemma fallbackPath_running:
  assumes "runningUpTo 100 tr"
  shows "endsOnce (fallbackPath env e tr)"
proof -
  let ?t1 = "progressWrite 100 ''Finalizing (fallback)'' ''Completing with minimal analysis due to an error'' tr"
  have r1: "runningUpTo 100 ?t1" using assms by (rule progressWrite_running) simp
  have h: "hasSteps tr" using assms by (rule runningUpTo_hasSteps)
  have a: "endsOnce (storeResult res ?t1)" for res
    unfolding endsOnce_def storeResult_def using r1 by (auto simp: isTerminal_def)
  have b: "endsOnce (markFailed e ?t1)"
    unfolding endsOnce_def markFailed_def using r1 by (auto simp: isTerminal_def)
  show ?thesis
    using a b h by (simp add: fallbackPath_def Let_def updateProgress_ok split: option.splits)
qed

lemma analyzeAPK_endsOnce:
  assumes "e_timer env = None"
  shows "endsOnce (analyzeAPK env)"
proof -
  let ?t1 = "progressWrite 5 ''Starting'' ''Initializing analysis'' [initialRecord]"
  have r1: "runningUpTo 5 ?t1" using runningUpTo_initial by (rule progressWrite_running) simp
  have h: "hasSteps [initialRecord]" using runningUpTo_initial by (rule runningUpTo_hasSteps)
  have eq: "analyzeAPK env =
          (case mainPath env ?t1 of (Inr u, tr2) \<Rightarrow> tr2 | (Inl err, tr2) \<Rightarrow> fallbackPath env err tr2)"
    using h by (simp add: analyzeAPK_def updateProgress_ok)
  from mainPath_running [OF assms r1] show ?thesis
  proof
    assume "\<exists>e. fst (mainPath env ?t1) = Inl e \<and> runningUpTo 100 (snd (mainPath env ?t1))"
    then obtain e where e: "fst (mainPath env ?t1) = Inl e" and r: "runningUpTo 100 (snd (mainPath env ?t1))"
      by blast
    then have "analyzeAPK env = fallbackPath env e (snd (mainPath env ?t1))"
      unfolding eq by (cases "mainPath env ?t1") simp
    then show ?thesis using fallbackPath_running [OF r] by simp
  next
    assume a: "fst (mainPath env ?t1) = Inr () \<and> endsOnce (snd (mainPath env ?t1))"
    then have "analyzeAPK env = snd (mainPath env ?t1)"
      unfolding eq by (cases "mainPath env ?t1") simp
    then show ?thesis using a by simp
  qed
qed

lemma progressValues_snoc_terminal:
  "isTerminal (j_status r) \<Longrightarrow> progressValues (tr @ [r]) = progressValues tr"
  by (auto simp: progressValues_def isTerminal_def)

lemma running_all_processing:
  "runningUpTo b tr \<Longrightarrow> filter (\<lambda>r. j_status r = Processing) tr = tr \<and> filter isTerminal (map j_status tr) = []"
  by (auto simp: runningUpTo_def list_all_iff isTerminal_def filter_empty_conv)

lemma running_dropWhile:
  "runningUpTo b tr \<Longrightarrow> isTerminal (j_status r) \<Longrightarrow>
     dropWhile (\<lambda>r. \<not> isTerminal (j_status r)) (tr @ [r]) = [r]"
  by (auto simp: runningUpTo_def list_all_iff isTerminal_def dropWhile_append)

lemma endsOnce_properties:
  assumes "endsOnce tr"
  shows "sorted (progressValues tr)
         \<and> terminalStatusesSet tr = [j_status (last tr)]
         \<and> isTerminal (j_status (last tr))
         \<and> list_all (\<lambda>r. j_status r = Processing) (butlast tr)
         \<and> outcomeFrozen tr"
proof -
  obtain tr' r where tr: "tr = tr' @ [r]" and run: "runningUpTo 100 tr'" and fin: "isTerminal (j_status r)"
    using assms unfolding endsOnce_def by blast
  have "progressValues tr = progressValues tr'"
    unfolding tr using fin by (rule progressValues_snoc_terminal)
  moreover have "progressValues tr' = List.map_filter j_progress tr'"
    using running_all_processing [OF run] by (simp add: progressValues_def)
  ultimately have "sorted (progressValues tr)"
    using run by (simp add: runningUpTo_def)
  moreover have "terminalStatusesSet tr = [j_status (last tr)]"
    using running_all_processing [OF run] fin by (simp add: tr terminalStatusesSet_def)
  moreover have "list_all (\<lambda>r. j_status r = Processing) (butlast tr)"
    using run by (simp add: tr runningUpTo_def)
  moreover have "outcomeFrozen tr"
    by (simp add: tr outcomeFrozen_def running_dropWhile [OF run fin])
  ultimately show ?thesis using fin by (simp add: tr)
qed

section \<open>A run in which the timer fires\<close>

lemma hasSteps_initial: "hasSteps [initialRecord]"
  by (simp add: hasSteps_def initialRecord_def)

lemma timeoutHandler_ok:
  "hasSteps tr \<Longrightarrow>
     timeoutHandler tr =
       markFailed ''Analysis timeout - process took too long''
         (progressWrite 0 ''Timeout'' ''Analysis took too long and was cancelled'' tr)"
  by (simp add: timeoutHandler_def updateProgress_ok)

lemma slow_trace:
  "analyzeAPK slowExtraction =
     storeResult
       (generateFinalResult
          \<lparr> fa_size = 2048, fa_hash = Str ''0f0f0f0f'', fa_hashSha1 = Str ''1e1e1e1e'',
            fa_isValidAPK = True, fa_filename = Undefined \<rparr>
          (fst (assessmentsOf slowExtraction)) (fst (snd (assessmentsOf slowExtraction)))
          (snd (snd (assessmentsOf slowExtraction)))
          (checkThreatDatabase Map.empty
             \<lparr> fa_size = 2048, fa_hash = Str ''0f0f0f0f'', fa_hashSha1 = Str ''1e1e1e1e'',
               fa_isValidAPK = True, fa_filename = Undefined \<rparr>
             (fst (assessmentsOf slowExtraction))))
       (progressWrite 100 ''Finalizing'' ''Generating security report''
       (progressWrite 95 ''Database Check'' ''Comparing with known threats''
       (progressWrite 90 ''Code Analysis'' ''Checking for malicious code patterns''
       (progressWrite 80 ''Permission Check'' ''Analyzing requested permissions''
       (progressWrite 60 ''Manifest Analysis'' ''Analyzing Android manifest file''
       (markFailed ''Analysis timeout - process took too long''
       (progressWrite 0 ''Timeout'' ''Analysis took too long and was cancelled''
       (progressWrite 40 ''Extracting APK'' ''Extracting and parsing APK contents''
       (progressWrite 20 ''File Analysis'' ''Examining file structure and integrity''
       (progressWrite 5 ''Starting'' ''Initializing analysis'' [initialRecord]))))))))))"
  by (simp add: analyzeAPK_def mainPath_def extractionStages_def finishMain_def Let_def
        steps_simps hasSteps_initial awaiting_def timeoutHandler_ok
        assessmentsOf_def stageError_def slowExtraction_def)

lemma project_progressWrite:
  "tr \<noteq> [] \<Longrightarrow> map j_status (progressWrite p s d tr) = map j_status tr @ [last (map j_status tr)]"
  "map j_progress (progressWrite p s d tr) = map j_progress tr @ [Some p]"
  "tr \<noteq> [] \<Longrightarrow> map j_error (progressWrite p s d tr) = map j_error tr @ [last (map j_error tr)]"
  "progressWrite p s d tr \<noteq> []"
  by (simp_all add: progressWrite_def last_map)

lemma project_markFailed:
  "map j_status (markFailed m tr) = map j_status tr @ [Failed]"
  "tr \<noteq> [] \<Longrightarrow> map j_progress (markFailed m tr) = map j_progress tr @ [last (map j_progress tr)]"
  "map j_error (markFailed m tr) = map j_error tr @ [Some m]"
  "markFailed m tr \<noteq> []"
  by (simp_all add: markFailed_def last_map)

lemma project_storeResult:
  "map j_status (storeResult res tr) = map j_status tr @ [Completed]"
  "map j_progress (storeResult res tr) = map j_progress tr @ [None]"
  "map j_error (storeResult res tr) = map j_error tr @ [None]"
  by (simp_all add: storeResult_def)

lemma slow_statuses:
  "map j_status (analyzeAPK slowExtraction) =
     [Processing, Processing, Processing, Processing, Processing,
      Failed, Failed, Failed, Failed, Failed, Failed, Completed]"
  unfolding slow_trace
  by (simp add: project_progressWrite project_markFailed project_storeResult initialRecord_def)

lemma slow_progress:
  "map j_progress (analyzeAPK slowExtraction) =
     [Some 0, Some 5, Some 20, Some 40, Some 0,
      Some 0, Some 60, Some 80, Some 90, Some 95, Some 100, None]"
  unfolding slow_trace
  by (simp add: project_progressWrite project_markFailed project_storeResult initialRecord_def)

lemma slow_errors:
  "map j_error (analyzeAPK slowExtraction) =
     [None, None, None, None, None,
      Some ''Analysis timeout - process took too long'', Some ''Analysis timeout - process took too long'',
      Some ''Analysis timeout - process took too long'', Some ''Analysis timeout - process took too long'',
      Some ''Analysis timeout - process took too long'', Some ''Analysis timeout - process took too long'',
      None]"
  unfolding slow_trace
  by (simp add: project_progressWrite project_markFailed project_storeResult initialRecord_def)

lemma progressValues_zip:
  "progressValues tr =
     List.map_filter (\<lambda>(s, p). if s = Processing then p else None)
       (zip (map j_status tr) (map j_progress tr))"
  by (induction tr) (simp_all add: progressValues_def List.map_filter_def)

lemma outcomeFrozen_errors:
  "outcomeFrozen tr \<Longrightarrow>
     (case dropWhile (\<lambda>(s, e). \<not> isTerminal s) (zip (map j_status tr) (map j_error tr)) of
        [] \<Rightarrow> True
      | (s, e) # rest \<Rightarrow> list_all (\<lambda>(s', e'). e' = e) rest)"
proof (induction tr)
  case Nil
  then show ?case by simp
next
  case (Cons r rs)
  show ?case
  proof (cases "isTerminal (j_status r)")
    case True
    then have "list_all (\<lambda>r'. j_error r' = j_error r \<and> j_result r' = j_result r) rs"
      using Cons.prems by (simp add: outcomeFrozen_def)
    then have "list_all (\<lambda>(s', e'). e' = j_error r) (zip (map j_status rs) (map j_error rs))"
      by (induction rs) simp_all
    then show ?thesis using True by simp
  next
    case False
    then have "outcomeFrozen rs" using Cons.prems by (simp add: outcomeFrozen_def)
    then show ?thesis using Cons.IH False by simp
  qed
qed

text \<open>
  The claim as first stated fails when the timer fires: in a run where every stage succeeds
  and the timer fires during the extraction, the handler writes progress 0 after 40, the
  status is set to failed and later to completed, and the error message is dropped again.
\<close>

theorem job_lifecycle_counterexample:
  "\<not> sorted (progressValues (analyzeAPK slowExtraction))
   \<and> terminalStatusesSet (analyzeAPK slowExtraction) = [Failed, Completed]
   \<and> \<not> outcomeFrozen (analyzeAPK slowExtraction)"
proof (intro conjI)
  show "\<not> sorted (progressValues (analyzeAPK slowExtraction))"
    unfolding progressValues_zip slow_statuses slow_progress
    by (simp add: List.map_filter_def)
  show "terminalStatusesSet (analyzeAPK slowExtraction) = [Failed, Completed]"
    unfolding terminalStatusesSet_def slow_statuses by (simp add: isTerminal_def)
  show "\<not> outcomeFrozen (analyzeAPK slowExtraction)"
  proof
    assume "outcomeFrozen (analyzeAPK slowExtraction)"
    from outcomeFrozen_errors [OF this] show False
      unfolding slow_statuses slow_errors by (simp add: isTerminal_def)
  qed
qed

lemma timeoutHandler_last:
  "j_progress (last (timeoutHandler tr)) = Some 0
   \<and> j_status (last (timeoutHandler tr)) = Failed
   \<and> j_error (last (timeoutHandler tr)) = Some ''Analysis timeout - process took too long''"
  by (simp add: timeoutHandler_def markFailed_def updateProgress_def split: option.splits)

text \<open>
  C2 (amended). For every analysis job in which the timeout handler does not run, the progress
  values written to its record are in non-decreasing order, every write but the last
  leaves the job non-terminal, the last write sets the terminal status (completed or
  failed), which is thus set exactly once, and nothing is written after it. The timeout
  handler itself sets the progress to 0 and marks the job failed with the timeout message.
\<close>

theorem job_lifecycle_without_timeout:
  assumes "e_timer env = None"
  shows "sorted (progressValues (analyzeAPK env))
         \<and> length (terminalStatusesSet (analyzeAPK env)) = 1
         \<and> isTerminal (j_status (last (analyzeAPK env)))
         \<and> list_all (\<lambda>r. j_status r = Processing) (butlast (analyzeAPK env))
         \<and> outcomeFrozen (analyzeAPK env)
         \<and> j_progress (last (timeoutHandler tr)) = Some 0
         \<and> j_status (last (timeoutHandler tr)) = Failed
         \<and> j_error (last (timeoutHandler tr)) = Some ''Analysis timeout - process took too long''"
  using endsOnce_properties [OF analyzeAPK_endsOnce [OF assms]] timeoutHandler_last [of tr]
  by simp

theorem job_lifecycle_without_timeout_witness:
  "sorted (progressValues (analyzeAPK (slowExtraction\<lparr>e_timer := None\<rparr>)))
   \<and> length (terminalStatusesSet (analyzeAPK (slowExtraction\<lparr>e_timer := None\<rparr>))) = 1
   \<and> outcomeFrozen (analyzeAPK (slowExtraction\<lparr>e_timer := None\<rparr>))"
  using job_lifecycle_without_timeout [of "slowExtraction\<lparr>e_timer := None\<rparr>" "[initialRecord]"]
  by simp

lemma generateFinalResult_details:
  "fr_fileAnalysis (generateFinalResult fa mi pa ca ta) = fa"
  "fr_manifestAnalysis (generateFinalResult fa mi pa ca ta) = mi"
  "fr_permissionAnalysis (generateFinalResult fa mi pa ca ta) = pa"
  "fr_codeAnalysis (generateFinalResult fa mi pa ca ta) = ca"
  "fr_threatAnalysis (generateFinalResult fa mi pa ca ta) = ta"
  by (simp_all add: generateFinalResult_def Let_def)

lemma analyzeAPK_paths:
  "analyzeAPK env =
     (case mainPath env (progressWrite 5 ''Starting'' ''Initializing analysis'' [initialRecord]) of
        (Inr u, tr2) \<Rightarrow> tr2
      | (Inl err, tr2) \<Rightarrow> fallbackPath env err tr2)"
  by (simp add: analyzeAPK_def updateProgress_ok hasSteps_initial)

lemma analyzeAPK_main_ok:
  assumes "e_timer env \<noteq> Some DuringCleanup" and "stepError env = None"
  shows "\<exists>fa. e_file env = Inr fa
           \<and> last (analyzeAPK env) =
               completedRecord (generateFinalResult fa (fst (assessmentsOf env))
                  (fst (snd (assessmentsOf env))) (snd (snd (assessmentsOf env)))
                  (checkThreatDatabase (e_threats env) fa (fst (assessmentsOf env))))"
proof -
  let ?t1 = "progressWrite 5 ''Starting'' ''Initializing analysis'' [initialRecord]"
  have h1: "hasSteps ?t1" by (simp add: steps_simps hasSteps_initial)
  have ok: "fst (mainPath env ?t1) = Inr ()"
    using mainPath_outcome [OF h1 assms(1)] assms(2) by simp
  then have "analyzeAPK env = snd (mainPath env ?t1)"
    unfolding analyzeAPK_paths by (cases "mainPath env ?t1") simp
  then show ?thesis
    using mainPath_outcome [OF h1 assms(1)] assms(2) by simp
qed

lemma analyzeAPK_fallback:
  assumes "e_timer env \<noteq> Some DuringCleanup" and "stepError env = Some e"
  shows "case e_finalErrorAgain env of
           Some e2 \<Rightarrow> j_status (last (analyzeAPK env)) = Failed
                      \<and> j_error (last (analyzeAPK env)) = Some e
         | None \<Rightarrow> (\<exists>fa ta. last (analyzeAPK env) =
                       completedRecord (generateFinalResult fa unknownManifest minimalPermissions
                                          (minimalCode e) ta))"
proof -
  let ?t1 = "progressWrite 5 ''Starting'' ''Initializing analysis'' [initialRecord]"
  have h1: "hasSteps ?t1" by (simp add: steps_simps hasSteps_initial)
  have err: "fst (mainPath env ?t1) = Inl e" and h2: "hasSteps (snd (mainPath env ?t1))"
    using mainPath_outcome [OF h1 assms(1)] assms(2) by simp_all
  have eq: "analyzeAPK env = fallbackPath env e (snd (mainPath env ?t1))"
    unfolding analyzeAPK_paths using err by (cases "mainPath env ?t1") simp
  show ?thesis
    unfolding eq by (rule fallbackPath_outcome [OF h2])
qed

lemma assessmentsOf_stage_error:
  "stageError env = Some e \<Longrightarrow> assessmentsOf env = (unknownManifest, minimalPermissions, minimalCode e)"
  by (simp add: assessmentsOf_def placeholders_def)

lemma assessmentsOf_scan_error:
  "stageError env = None \<Longrightarrow> e_scan env = Inl e \<Longrightarrow> ca_error (snd (snd (assessmentsOf env))) = Some e"
  by (auto simp: assessmentsOf_def stageError_def analyzeCode_def split: option.splits sum.splits)

section \<open>Stage errors and the missing manifest\<close>





lemma analyzeManifest_absent: "analyzeManifest lib Absent = Inl ''AndroidManifest.xml not found''"
  by (simp add: analyzeManifest_def)

lemma run_examples:
  "e_timer missingManifestRun \<noteq> Some DuringCleanup"
  "stepError missingManifestRun = None"
  "stageError missingManifestRun = Some ''AndroidManifest.xml not found''"
  "e_timer unreadableRun \<noteq> Some DuringCleanup"
  "stepError unreadableRun = Some ''EACCES: permission denied''"
  "e_finalErrorAgain unreadableRun \<noteq> None"
  by (simp_all add: missingManifestRun_def unreadableRun_def stepError_def stageError_def
        analyzeManifest_absent)


lemma structuredManifest_throws: "\<exists>e. structuredManifest lib entry = Inl e"
  by (auto simp: structuredManifest_def extractPermissions_def split: sum.splits prod.splits)

lemma analyzeManifest_present: "\<exists>info. analyzeManifest lib (FileContent content) = Inr info"
  using structuredManifest_throws [of lib "FileContent content"]
  by (auto simp: analyzeManifest_def regexManifest_def readFile_def split: option.splits)

lemma analyzeManifest_unreadable:
  "analyzeManifest lib (Unreadable message) = Inl ''Failed to analyze Android manifest file''"
  using structuredManifest_throws [of lib "Unreadable message"]
  by (auto simp: analyzeManifest_def regexManifest_def binaryManifest_def readFile_def split: option.splits)

lemma absent_manifest_substituted:
  assumes "e_manifest env = analyzeManifest lib Absent"
    and "e_timer env \<noteq> Some DuringCleanup"
    and "stepError env = None \<or> e_finalErrorAgain env = None"
  shows "j_status (last (analyzeAPK env)) = Completed
         \<and> (\<exists>res. j_result (last (analyzeAPK env)) = Some res
               \<and> packageName (fr_manifestAnalysis res) = ''Unknown''
               \<and> versionName (fr_manifestAnalysis res) = ''Unknown''
               \<and> versionCode (fr_manifestAnalysis res) = ''Unknown''
               \<and> permissions (fr_manifestAnalysis res) = []
               \<and> activities (fr_manifestAnalysis res) = []
               \<and> services (fr_manifestAnalysis res) = []
               \<and> receivers (fr_manifestAnalysis res) = []
               \<and> providers (fr_manifestAnalysis res) = [])"
proof (cases "stepError env")
  case None
  have "\<exists>e. stageError env = Some e"
    using assms(1) by (simp add: stageError_def analyzeManifest_absent split: option.splits)
  then have a: "fst (assessmentsOf env) = unknownManifest"
    by (auto simp: assessmentsOf_stage_error)
  obtain fa where
    "last (analyzeAPK env) =
       completedRecord (generateFinalResult fa (fst (assessmentsOf env))
          (fst (snd (assessmentsOf env))) (snd (snd (assessmentsOf env)))
          (checkThreatDatabase (e_threats env) fa (fst (assessmentsOf env))))"
    using analyzeAPK_main_ok [OF assms(2) None] by blast
  then show ?thesis
    by (simp add: completedRecord_def generateFinalResult_details a unknownManifest_def)
next
  case (Some e)
  then have "e_finalErrorAgain env = None" using assms(3) by simp
  then obtain fa ta where
    "last (analyzeAPK env) =
       completedRecord (generateFinalResult fa unknownManifest minimalPermissions (minimalCode e) ta)"
    using analyzeAPK_fallback [OF assms(2) Some] by auto
  then show ?thesis
    by (simp add: completedRecord_def generateFinalResult_details unknownManifest_def)
qed

text \<open>
  C5 (amended). When the manifest file is absent, \<open>analyzeManifest\<close> throws the error
  ``AndroidManifest.xml not found''. \<open>analyzeAPK\<close> catches it and substitutes the manifest
  information whose package name, version name and version code are ``Unknown'' and whose
  permission and component lists are empty, and the job ends completed with it in the
  verdict, unless building the verdict fails in the fallback as well, and provided that the
  timeout handler does not run after the verdict has been stored. For a manifest file that
  is present and can be read, \<open>analyzeManifest\<close> returns manifest information whatever the
  content; it throws ``Failed to analyze Android manifest file'' when the file cannot be
  read.
\<close>

theorem analyzeManifest_outcomes:
  "analyzeManifest lib Absent = Inl ''AndroidManifest.xml not found''
   \<and> (\<exists>info. analyzeManifest lib (FileContent content) = Inr info)
   \<and> analyzeManifest lib (Unreadable message) = Inl ''Failed to analyze Android manifest file''
   \<and> (e_manifest env = analyzeManifest lib Absent \<longrightarrow> e_timer env \<noteq> Some DuringCleanup \<longrightarrow>
        stepError env = None \<or> e_finalErrorAgain env = None \<longrightarrow>
          j_status (last (analyzeAPK env)) = Completed
          \<and> (\<exists>res. j_result (last (analyzeAPK env)) = Some res
                \<and> packageName (fr_manifestAnalysis res) = ''Unknown''
                \<and> versionName (fr_manifestAnalysis res) = ''Unknown''
                \<and> versionCode (fr_manifestAnalysis res) = ''Unknown''
                \<and> permissions (fr_manifestAnalysis res) = []
                \<and> activities (fr_manifestAnalysis res) = []
                \<and> services (fr_manifestAnalysis res) = []
                \<and> receivers (fr_manifestAnalysis res) = []
                \<and> providers (fr_manifestAnalysis res) = []))"
  using analyzeManifest_absent [of lib] analyzeManifest_present [of lib content]
        analyzeManifest_unreadable [of lib message] absent_manifest_substituted [of env lib]
  by blast

text \<open>
  The claim as first stated fails: on a tree without the manifest file the call throws
  and returns nothing.
\<close>

theorem analyzeManifest_absent_counterexample:
  "analyzeManifest exampleXml Absent = Inl ''AndroidManifest.xml not found''
   \<and> analyzeManifest exampleXml Absent \<noteq> Inr unknownManifest"
  by (simp add: analyzeManifest_def)

theorem analyzeManifest_outcomes_witness:
  "analyzeManifest exampleXml Absent = Inl ''AndroidManifest.xml not found''
   \<and> j_status (last (analyzeAPK missingManifestRun)) = Completed
   \<and> map_option (\<lambda>res. packageName (fr_manifestAnalysis res)) (j_result (last (analyzeAPK missingManifestRun)))
       = Some ''Unknown''
   \<and> map_option (\<lambda>res. permissions (fr_manifestAnalysis res)) (j_result (last (analyzeAPK missingManifestRun)))
       = Some []"
proof -
  have m: "e_manifest missingManifestRun = analyzeManifest exampleXml Absent"
    by (simp add: missingManifestRun_def)
  show ?thesis
    using analyzeManifest_outcomes [of exampleXml "[]" "[]" missingManifestRun] m run_examples(1,2)
    by auto
qed

end
